theory Spec2Isabelle
  imports Complex_Main "HOL-Library.Option_ord" "HOL-Library.Log_Nat"
begin

section \<open>Common vocabulary\<close>

text \<open>
  The backend is a set of Express route handlers over Mongoose collections. Each handler
  is embedded as a function from the store, the authenticated principal (\<open>req.user\<close>)
  and the request's parameters to the HTTP outcome and the store after the request.
  ObjectIds are natural numbers, dates are milliseconds since the epoch, and the clock
  (\<open>new Date()\<close>, \<open>Date.now()\<close>) is an argument of the handler.
\<close>

type_synonym oid = nat

datatype role = Student | Trainer | Faculty | Admin | Superadmin

record principal =
  p_id :: oid
  p_role :: role

text \<open>The status codes the handlers answer with: 200, 201, 400, 403, 404 and 500.\<close>

datatype outcome = Success | Created | BadRequest | Forbidden | NotFound | ServerError

text \<open>
  \<open>String.prototype.trim\<close> on ASCII text; Mongoose applies it to every schema path
  declared \<open>trim: true\<close> when the path is set.
\<close>

definition is_space :: "char \<Rightarrow> bool" where
  "is_space c = (c \<in> set [CHR '' '', CHR 0x09, CHR 0x0A, CHR 0x0B, CHR 0x0C, CHR 0x0D])"

definition trim :: "string \<Rightarrow> string" where
  "trim s = rev (dropWhile is_space (rev (dropWhile is_space s)))"

section \<open>JavaScript numbers\<close>

text \<open>
  Numbers are IEEE 754 binary64 values: a finite one is the rational it denotes, and the
  special values \<open>NaN\<close>, \<open>Infinity\<close> and \<open>-Infinity\<close> are kept (the sign of zero is
  not). \<open>to_double\<close> rounds an exact result to the nearest double, ties to the even
  significand, with gradual underflow and overflow to infinity; every arithmetic
  operation on doubles is the exact operation followed by this rounding.
\<close>

datatype jsnum = Num rat | NaN | Infinity | NegInfinity

definition pow2 :: "int \<Rightarrow> rat" where
  "pow2 e = (if 0 \<le> e then 2 ^ nat e else 1 / 2 ^ nat (- e))"

text \<open>The exponent of a positive rational: the \<open>k\<close> with \<open>2 ^ k \<le> x < 2 ^ (k + 1)\<close>.\<close>

definition floor_log2 :: "rat \<Rightarrow> int" where
  "floor_log2 x = (case quotient_of x of (p, q) \<Rightarrow>
                     let k = bitlen p - bitlen q in if pow2 k \<le> x then k else k - 1)"

definition round_half_even :: "rat \<Rightarrow> int" where
  "round_half_even x =
     (let f = \<lfloor>x\<rfloor>; d = x - of_int f
      in if d < 1 / 2 then f else if 1 / 2 < d then f + 1 else if even f then f else f + 1)"

definition to_double :: "rat \<Rightarrow> jsnum" where
  "to_double x =
     (if x = 0 then Num 0
      else let e = max (floor_log2 \<bar>x\<bar> - 52) (- 1074);
               y = of_int (round_half_even (\<bar>x\<bar> / pow2 e)) * pow2 e
           in if 2 ^ 1024 \<le> y then (if 0 < x then Infinity else NegInfinity)
              else Num (sgn x * y))"

fun js_div :: "jsnum \<Rightarrow> jsnum \<Rightarrow> jsnum" where
  "js_div (Num a) (Num b) =
     (if b = 0 then (if a = 0 then NaN else if 0 < a then Infinity else NegInfinity)
      else to_double (a / b))"
| "js_div NaN y = NaN"
| "js_div x NaN = NaN"
| "js_div (Num a) y = Num 0"
| "js_div Infinity (Num b) = (if 0 \<le> b then Infinity else NegInfinity)"
| "js_div NegInfinity (Num b) = (if 0 \<le> b then NegInfinity else Infinity)"
| "js_div x y = NaN"

fun js_mul :: "jsnum \<Rightarrow> jsnum \<Rightarrow> jsnum" where
  "js_mul (Num a) (Num b) = to_double (a * b)"
| "js_mul NaN y = NaN"
| "js_mul x NaN = NaN"
| "js_mul (Num a) Infinity = (if a = 0 then NaN else if 0 < a then Infinity else NegInfinity)"
| "js_mul (Num a) NegInfinity = (if a = 0 then NaN else if 0 < a then NegInfinity else Infinity)"
| "js_mul Infinity (Num b) = (if b = 0 then NaN else if 0 < b then Infinity else NegInfinity)"
| "js_mul NegInfinity (Num b) = (if b = 0 then NaN else if 0 < b then NegInfinity else Infinity)"
| "js_mul Infinity Infinity = Infinity"
| "js_mul NegInfinity NegInfinity = Infinity"
| "js_mul x y = NegInfinity"

fun js_add :: "jsnum \<Rightarrow> jsnum \<Rightarrow> jsnum" where
  "js_add (Num a) (Num b) = to_double (a + b)"
| "js_add NaN y = NaN"
| "js_add x NaN = NaN"
| "js_add (Num a) y = y"
| "js_add x (Num b) = x"
| "js_add Infinity Infinity = Infinity"
| "js_add NegInfinity NegInfinity = NegInfinity"
| "js_add x y = NaN"

text \<open>
  \<open>Math.round\<close>: the nearest integer, halves upwards; \<open>Math.floor\<close>. Both are exact on
  a double.
\<close>

fun js_round :: "jsnum \<Rightarrow> jsnum" where
  "js_round (Num a) = Num (of_int \<lfloor>a + 1 / 2\<rfloor>)"
| "js_round x = x"

fun js_floor :: "jsnum \<Rightarrow> jsnum" where
  "js_floor (Num a) = Num (of_int \<lfloor>a\<rfloor>)"
| "js_floor x = x"

text \<open>\<open>x || 0\<close>: 0 and \<open>NaN\<close> are falsy.\<close>

fun js_or_zero :: "jsnum \<Rightarrow> jsnum" where
  "js_or_zero NaN = Num 0"
| "js_or_zero x = x"

text \<open>
  \<open>$avg\<close> over the numeric values of a list, \<open>null\<close> when there is none: the sum, rounded
  to a double, divided by the count. The values are doubles far inside the double range
  (a sum that overflows is not modelled).
\<close>

definition avg :: "rat option list \<Rightarrow> rat option" where
  "avg xs = (let ns = List.map_filter (\<lambda>x. x) xs
             in if ns = [] then None
                else (case js_div (to_double (sum_list ns)) (Num (of_nat (length ns))) of
                        Num v \<Rightarrow> Some v
                      | other \<Rightarrow> None))"

section \<open>Reports: src/models/Report.js\<close>

datatype report_status = Draft | Submitted | Reviewed | Approved | Rejected | Needs_revision

record history_entry =
  he_status :: report_status
  changedBy :: oid
  changedAt :: int
  he_comment :: "string option"

record comment =
  cm_user :: oid
  cm_text :: string
  cm_createdAt :: "int option"
  cm_updatedAt :: "int option"

record report =
  r_id :: oid
  r_student :: oid
  r_createdBy :: oid
  r_status :: report_status
  statusHistory :: "history_entry list"
  comments :: "comment list"
  r_updatedAt :: "int option"

section \<open>The document store\<close>

text \<open>
  The Student collection: the profile of a student user. The report routes read it with
  \<open>Student.findById(report.student)\<close> and compare its \<open>assignedFaculty\<close> reference,
  which may be unset.
\<close>

record student_profile =
  sp_id :: oid
  sp_user :: oid
  sp_rollNumber :: "string option"
  assignedFaculty :: "oid option"

text \<open>
  The User collection, as the routes read it (its schema file is not among the sources):
  the role,
  the identity fields the listings filter on, and \<open>studentInfo.rollNumber\<close>.
\<close>

record user =
  u_id :: oid
  u_role :: role
  username :: string
  email :: string
  firstName :: string
  lastName :: string
  u_rollNumber :: "string option"
  studentInfo_rollNumber :: "string option"
  isActive :: bool
  createdAt :: int

text \<open>The Batch schema (src/models/index.js, from line 18).\<close>

record batch =
  b_id :: oid
  b_name :: string
  b_description :: string
  b_code :: string
  startDate :: int
  endDate :: int
  trainers :: "oid list"
  b_students :: "oid list"
  b_createdBy :: oid
  maxStudents :: int

text \<open>
  A course with its enrolment sub-documents. \<open>instructor\<close> is the reference the trainer
  routes match on; \<open>instructors\<close> and \<open>c_faculty\<close> are the paths the admin deletion
  route updates.
\<close>

record enrollment =
  en_student :: oid
  progress :: "rat option"
  lastAccessed :: "int option"

record course =
  c_id :: oid
  c_title :: string
  instructor :: "oid option"
  instructors :: "oid list"
  c_faculty :: "oid option"
  c_students :: "enrollment list"
  batchId :: "oid option"

text \<open>The Assignment schema (src/models/Report.js, from line 236), with its submissions.\<close>

datatype submission_status = Sub_submitted | Sub_graded | Sub_late

record submission =
  sub_id :: oid
  sub_student :: oid
  submittedAt :: "int option"
  grade :: "rat option"
  feedback :: "string option"
  sub_status :: submission_status

text \<open>
  An uploaded resource. Its \<open>fileUrl\<close> is built from one of two templates:
  \<open>/uploads/assignments/<assignment id>/<file name>\<close> or
  \<open>/uploads/assignments/<file name>\<close>.
\<close>

datatype file_url = In_assignment_folder oid string | In_uploads string

record resource =
  res_type :: string
  fileUrl :: file_url
  uploadedBy :: oid

record assignment =
  a_id :: oid
  a_title :: string
  a_course :: oid
  dueDate :: int
  trainerResources :: "string list"
  resources :: "resource list"
  submissions :: "submission list"

text \<open>The Attendance schema: one record per student, course and date.\<close>

datatype attendance_status = Present | Absent | Late | Excused

record attendance =
  at_student :: oid
  at_course :: oid
  at_date :: int
  at_status :: attendance_status

text \<open>The document store: one list of documents per collection.\<close>

record store =
  users :: "user list"
  students :: "student_profile list"
  batches :: "batch list"
  courses :: "course list"
  assignments :: "assignment list"
  attendances :: "attendance list"
  reports :: "report list"

section \<open>Report workflow: the schema's hooks and the two status routes\<close>

text \<open>
  The first \<open>pre('save')\<close> hook of the report schema: it stamps \<open>updatedAt\<close> and, when
  the document is new or its status is modified, pushes a history entry whose
  \<open>changedBy\<close> is the report's creator. \<open>isModified('status')\<close> compares the document
  in memory with the one that was loaded.
\<close>

definition pre_save_status :: "bool \<Rightarrow> report \<Rightarrow> report \<Rightarrow> int \<Rightarrow> report" where
  "pre_save_status isNew loaded doc now =
     (let doc1 = doc\<lparr>r_updatedAt := Some now\<rparr> in
      if isNew \<or> r_status doc1 \<noteq> r_status loaded
      then doc1\<lparr>statusHistory := statusHistory doc1 @
             [\<lparr>he_status = r_status doc1, changedBy = r_createdBy doc1,
               changedAt = now, he_comment = None\<rparr>]\<rparr>
      else doc1)"

text \<open>The second hook: when the comments are modified, every comment is re-stamped.\<close>

definition pre_save_comments :: "report \<Rightarrow> report \<Rightarrow> int \<Rightarrow> report" where
  "pre_save_comments loaded doc now =
     (if comments doc \<noteq> comments loaded
      then doc\<lparr>comments :=
             map (\<lambda>c. c\<lparr>cm_createdAt := (case cm_createdAt c of None \<Rightarrow> Some now | Some t \<Rightarrow> Some t),
                       cm_updatedAt := Some now\<rparr>)
                 (comments doc)\<rparr>
      else doc)"

text \<open>
  Schema validation of what a route pushed: a comment's text is required and at most
  1000 characters, a history entry's comment at most 500. Mongoose validates before the
  schema's own \<open>pre('save')\<close> hooks run. The documents already stored passed this
  validation when they were saved, so only the pushed elements are checked.
\<close>

definition valid_comment :: "comment \<Rightarrow> bool" where
  "valid_comment c = (cm_text c \<noteq> [] \<and> length (cm_text c) \<le> 1000)"

definition valid_history_entry :: "history_entry \<Rightarrow> bool" where
  "valid_history_entry h = (case he_comment h of None \<Rightarrow> True | Some s \<Rightarrow> length s \<le> 500)"

definition validate_report :: "report \<Rightarrow> report \<Rightarrow> bool" where
  "validate_report loaded doc =
     (list_all valid_comment (drop (length (comments loaded)) (comments doc)) \<and>
      list_all valid_history_entry (drop (length (statusHistory loaded)) (statusHistory doc)))"

text \<open>\<open>report.save()\<close> of a loaded document: validation, the two hooks, the write.\<close>

definition save_report :: "store \<Rightarrow> report \<Rightarrow> report \<Rightarrow> int \<Rightarrow> store option" where
  "save_report st loaded doc now =
     (if validate_report loaded doc
      then let doc' = pre_save_comments loaded (pre_save_status False loaded doc now) now
           in Some (st\<lparr>reports := map (\<lambda>r. if r_id r = r_id doc then doc' else r) (reports st)\<rparr>)
      else None)"

text \<open>
  \<open>POST /api/reports/:id/comments\<close> of src/routes/reports.js. \<open>raw\<close> is the submitted text; the validator chain
  is \<open>notEmpty().trim().escape()\<close>, whose \<open>escape\<close> sanitizer (of the validator library)
  is the argument \<open>escape\<close>. A missing student, or a student without \<open>assignedFaculty\<close>,
  makes \<open>student.assignedFaculty.toString()\<close> throw, which the handler answers with 500.
\<close>

definition add_comment ::
  "(string \<Rightarrow> string) \<Rightarrow> store \<Rightarrow> principal \<Rightarrow> oid \<Rightarrow> string \<Rightarrow> int \<Rightarrow> outcome \<times> store" where
  "add_comment escape st p rid raw now =
     (if raw = [] then (BadRequest, st)
      else case find (\<lambda>r. r_id r = rid) (reports st) of
        None \<Rightarrow> (NotFound, st)
      | Some report \<Rightarrow>
          (case find (\<lambda>s. sp_id s = r_student report) (students st) of
             None \<Rightarrow> (ServerError, st)
           | Some student \<Rightarrow>
               (case assignedFaculty student of
                  None \<Rightarrow> (ServerError, st)
                | Some f \<Rightarrow>
                    if f \<noteq> p_id p \<and> p_role p \<noteq> Admin then (Forbidden, st)
                    else
                      let c = \<lparr>cm_user = p_id p, cm_text = trim (escape (trim raw)),
                               cm_createdAt = Some now, cm_updatedAt = None\<rparr>;
                          doc = report\<lparr>comments := comments report @ [c]\<rparr>;
                          doc' = (if r_status doc = Submitted \<and> p_role p \<noteq> Student
                                  then doc\<lparr>r_status := Reviewed\<rparr> else doc)
                      in (case save_report st report doc' now of
                            None \<Rightarrow> (ServerError, st)
                          | Some st' \<Rightarrow> (Created, st')))))"

text \<open>
  \<open>PATCH /api/reports/:id/status\<close> of src/routes/reports.js. The validator accepts five of the six status names;
  the handler then writes the requested status whatever the current one is, pushes its
  own history entry and saves.
\<close>

definition status_of_string :: "string \<Rightarrow> report_status option" where
  "status_of_string s =
     (if s = ''submitted'' then Some Submitted
      else if s = ''reviewed'' then Some Reviewed
      else if s = ''approved'' then Some Approved
      else if s = ''rejected'' then Some Rejected
      else if s = ''needs_revision'' then Some Needs_revision
      else None)"

definition update_status ::
  "store \<Rightarrow> principal \<Rightarrow> oid \<Rightarrow> string \<Rightarrow> string option \<Rightarrow> int \<Rightarrow> outcome \<times> store" where
  "update_status st p rid status cmt now =
     (case status_of_string status of
        None \<Rightarrow> (BadRequest, st)
      | Some s \<Rightarrow>
          (case find (\<lambda>r. r_id r = rid) (reports st) of
             None \<Rightarrow> (NotFound, st)
           | Some report \<Rightarrow>
               (case find (\<lambda>x. sp_id x = r_student report) (students st) of
                  None \<Rightarrow> (ServerError, st)
                | Some student \<Rightarrow>
                    if assignedFaculty student \<noteq> Some (p_id p) \<and> p_role p \<noteq> Admin
                    then (Forbidden, st)
                    else
                      let h = \<lparr>he_status = s, changedBy = p_id p, changedAt = now,
                               he_comment = Some (trim (case cmt of None \<Rightarrow> [] | Some t \<Rightarrow> t))\<rparr>;
                          doc = report\<lparr>r_status := s, r_updatedAt := Some now,
                                       statusHistory := statusHistory report @ [h]\<rparr>
                      in (case save_report st report doc now of
                            None \<Rightarrow> (ServerError, st)
                          | Some st' \<Rightarrow> (Success, st')))))"

text \<open>
  \<open>PATCH /api/trainer/reports/:id/status\<close> of src/routes/trainerReports.js (line 274):
  the role is checked first, then the validator's result, which accepts four status
  names (\<open>submitted\<close> is not among them). The student's \<open>assignedFaculty\<close> is read
  with no guard, so a missing student or a student without \<open>assignedFaculty\<close> throws;
  the error goes through \<open>asyncHandler\<close> to the error middleware, which is not among the
  sources and is taken to answer 500. The update itself is the one of the route above.
\<close>

definition trainer_status_of_string :: "string \<Rightarrow> report_status option" where
  "trainer_status_of_string s =
     (if s = ''reviewed'' then Some Reviewed
      else if s = ''approved'' then Some Approved
      else if s = ''rejected'' then Some Rejected
      else if s = ''needs_revision'' then Some Needs_revision
      else None)"

definition trainer_update_status ::
  "store \<Rightarrow> principal \<Rightarrow> oid \<Rightarrow> string \<Rightarrow> string option \<Rightarrow> int \<Rightarrow> outcome \<times> store" where
  "trainer_update_status st p rid status cmt now =
     (if p_role p \<noteq> Trainer then (Forbidden, st)
      else case trainer_status_of_string status of
        None \<Rightarrow> (BadRequest, st)
      | Some s \<Rightarrow>
          (case find (\<lambda>r. r_id r = rid) (reports st) of
             None \<Rightarrow> (NotFound, st)
           | Some report \<Rightarrow>
               (case find (\<lambda>x. sp_id x = r_student report) (students st) of
                  None \<Rightarrow> (ServerError, st)
                | Some student \<Rightarrow>
                    (case assignedFaculty student of
                       None \<Rightarrow> (ServerError, st)
                     | Some f \<Rightarrow>
                         if f \<noteq> p_id p then (Forbidden, st)
                         else
                           let h = \<lparr>he_status = s, changedBy = p_id p, changedAt = now,
                                    he_comment = Some (trim (case cmt of None \<Rightarrow> [] | Some t \<Rightarrow> t))\<rparr>;
                               doc = report\<lparr>r_status := s, r_updatedAt := Some now,
                                            statusHistory := statusHistory report @ [h]\<rparr>
                           in (case save_report st report doc now of
                                 None \<Rightarrow> (ServerError, st)
                               | Some st' \<Rightarrow> (Success, st'))))))"

text \<open>The report a request is about, as stored.\<close>

definition get_report :: "store \<Rightarrow> oid \<Rightarrow> report option" where
  "get_report st rid = find (\<lambda>r. r_id r = rid) (reports st)"

text \<open>
  What the comment route saves: the loaded report with the new comment pushed and, for a
  commenter who is not a student, the status advanced from \<open>submitted\<close> to \<open>reviewed\<close>.
\<close>

definition commented :: "(string \<Rightarrow> string) \<Rightarrow> principal \<Rightarrow> report \<Rightarrow> string \<Rightarrow> int \<Rightarrow> report" where
  "commented escape p r raw now =
     (let c = \<lparr>cm_user = p_id p, cm_text = trim (escape (trim raw)),
              cm_createdAt = Some now, cm_updatedAt = None\<rparr>;
          doc = r\<lparr>comments := comments r @ [c]\<rparr>
      in if r_status doc = Submitted \<and> p_role p \<noteq> Student
         then doc\<lparr>r_status := Reviewed\<rparr> else doc)"

section \<open>Batches: the schema and the super-admin batch listing\<close>





text \<open>ASCII case mapping, for \<open>toLowerCase\<close> and the schema option \<open>uppercase: true\<close>.\<close>

definition to_lower :: "char \<Rightarrow> char" where
  "to_lower c = (let n = (of_char c :: nat) in if 65 \<le> n \<and> n \<le> 90 then char_of (n + 32) else c)"





section \<open>Admin user management: src/routes/adminUserManagement.js\<close>

subsection \<open>The user listing\<close>

text \<open>
  \<open>GET /api/admin/users\<close>. The query string: \<open>page\<close> and \<open>limit\<close> as \<open>parseInt\<close> reads
  the numerals a client sends (\<open>None\<close> is \<open>NaN\<close>), the other parameters as strings.
  \<open>new RegExp(search, 'i')\<close> is the argument \<open>regexp\<close>: \<open>None\<close> for a pattern that does
  not compile (the handler answers 500), else the test of a subject string.
\<close>

record users_query =
  q_page :: "nat option"
  q_limit :: "nat option"
  q_role :: "string option"
  q_isActive :: "string option"
  q_search :: "string option"

definition role_name :: "role \<Rightarrow> string" where
  "role_name r = (case r of Student \<Rightarrow> ''student'' | Trainer \<Rightarrow> ''trainer'' | Faculty \<Rightarrow> ''faculty''
                  | Admin \<Rightarrow> ''admin'' | Superadmin \<Rightarrow> ''superadmin'')"

text \<open>A query parameter is truthy when it is present and not the empty string.\<close>

definition truthy :: "string option \<Rightarrow> bool" where
  "truthy s = (case s of None \<Rightarrow> False | Some t \<Rightarrow> t \<noteq> [])"

text \<open>\<open>parseInt(x) || d\<close>: \<open>NaN\<close> and 0 are falsy.\<close>

definition or_default :: "nat option \<Rightarrow> nat \<Rightarrow> nat" where
  "or_default v d = (case v of None \<Rightarrow> d | Some n \<Rightarrow> if n = 0 then d else n)"

text \<open>
  The filter object. Its \<open>role\<close> key starts as \<open>{ $ne: 'superadmin' }\<close> and is overwritten
  by a truthy \<open>role\<close> parameter.
\<close>

datatype role_condition = Role_ne string | Role_eq string

record user_filter =
  f_role :: role_condition
  f_isActive :: "bool option"
  f_or :: "(string \<Rightarrow> bool) option"

definition build_filter :: "(string \<Rightarrow> (string \<Rightarrow> bool) option) \<Rightarrow> users_query \<Rightarrow> user_filter option" where
  "build_filter regexp q =
     (let f0 = \<lparr>f_role = Role_ne ''superadmin'', f_isActive = None, f_or = None\<rparr>;
          f1 = (case q_role q of Some r \<Rightarrow> if r \<noteq> [] then f0\<lparr>f_role := Role_eq r\<rparr> else f0 | None \<Rightarrow> f0);
          f2 = (case q_isActive q of Some a \<Rightarrow> if a \<noteq> [] then f1\<lparr>f_isActive := Some (a = ''true'')\<rparr> else f1
                | None \<Rightarrow> f1)
      in case q_search q of
           None \<Rightarrow> Some f2
         | Some pat \<Rightarrow>
             if pat = [] then Some f2
             else (case regexp pat of None \<Rightarrow> None | Some test \<Rightarrow> Some (f2\<lparr>f_or := Some test\<rparr>)))"

definition matches :: "user_filter \<Rightarrow> user \<Rightarrow> bool" where
  "matches f u =
     ((case f_role f of Role_ne r \<Rightarrow> role_name (u_role u) \<noteq> r | Role_eq r \<Rightarrow> role_name (u_role u) = r) \<and>
      (case f_isActive f of None \<Rightarrow> True | Some a \<Rightarrow> isActive u = a) \<and>
      (case f_or f of None \<Rightarrow> True
       | Some test \<Rightarrow> test (firstName u) \<or> test (lastName u) \<or> test (email u) \<or>
                      (case u_rollNumber u of None \<Rightarrow> False | Some n \<Rightarrow> test n)))"

text \<open>
  The reply: the page of users (newest first), and the pagination block. The fields the
  handler adds to students and trainers (\<open>studentDetails\<close>, \<open>batches\<close>) are left out.
\<close>

record users_page =
  pg_users :: "user list"
  pg_total :: nat
  pg_page :: nat
  pg_pages :: int
  pg_limit :: nat

definition list_users ::
  "(string \<Rightarrow> (string \<Rightarrow> bool) option) \<Rightarrow> store \<Rightarrow> principal \<Rightarrow> users_query \<Rightarrow> outcome + users_page" where
  "list_users regexp st p q =
     (if p_role p \<noteq> Admin then Inl Forbidden
      else
        let page = or_default (q_page q) 1;
            limit = or_default (q_limit q) 20;
            skip = (page - 1) * limit
        in case build_filter regexp q of
             None \<Rightarrow> Inl ServerError
           | Some f \<Rightarrow>
               let found = filter (matches f) (users st);
                   total = length found
               in Inr \<lparr>pg_users = take limit (drop skip (rev (sort_key createdAt found))),
                       pg_total = total, pg_page = page,
                       pg_pages = \<lceil>rat_of_nat total / rat_of_nat limit\<rceil>, pg_limit = limit\<rparr>)"

subsection \<open>Username generation\<close>

text \<open>
  The candidate of one attempt: first name and the last name's first letter in lower
  case, then \<open>Math.floor(100 + Math.random() * 900)\<close>, cut to 20 characters. \<open>r\<close> is the
  double \<open>Math.random()\<close> returned, at least 0 and below 1.
\<close>

fun digits_of :: "nat \<Rightarrow> string" where
  "digits_of n = (if n < 10 then [char_of (48 + n)]
                  else digits_of (n div 10) @ [char_of (48 + n mod 10)])"

declare digits_of.simps [simp del]

definition random_suffix :: "rat \<Rightarrow> jsnum" where
  "random_suffix r = js_floor (js_add (Num 100) (js_mul (Num r) (Num 900)))"

text \<open>
  A number inside a template string: the decimal digits of an integral value (below
  \<open>10 ^ 21\<close>, where JavaScript prints all digits), and the names of the special values.
\<close>

definition number_text :: "jsnum \<Rightarrow> string" where
  "number_text x =
     (case x of
        Num a \<Rightarrow> if 0 \<le> a then digits_of (nat \<lfloor>a\<rfloor>) else CHR ''-'' # digits_of (nat \<lfloor>- a\<rfloor>)
      | NaN \<Rightarrow> ''NaN''
      | Infinity \<Rightarrow> ''Infinity''
      | NegInfinity \<Rightarrow> ''-Infinity'')"

definition generated_username :: "string \<Rightarrow> string \<Rightarrow> rat \<Rightarrow> string" where
  "generated_username fname lname r =
     take 20 (map to_lower fname @ take 1 (map to_lower lname) @ number_text (random_suffix r))"

definition maxAttempts :: nat where
  "maxAttempts = 5"

text \<open>\<open>User.findOne({ username })\<close> finds a document.\<close>

definition username_taken :: "store \<Rightarrow> string \<Rightarrow> bool" where
  "username_taken st n = list_ex (\<lambda>u. username u = n) (users st)"

text \<open>
  The retry loop, the same in the route and in \<open>generateUniqueUsername\<close>: its state is
  \<open>username\<close> (undefined at first), \<open>isUnique\<close> and \<open>attempts\<close>; \<open>rnd k\<close> is the random
  number drawn in attempt \<open>k\<close>.
\<close>

function username_loop ::
  "(string \<Rightarrow> bool) \<Rightarrow> string \<Rightarrow> string \<Rightarrow> (nat \<Rightarrow> rat) \<Rightarrow> string option \<Rightarrow> bool \<Rightarrow> nat
   \<Rightarrow> string option \<times> bool \<times> nat" where
  "username_loop taken fname lname rnd uname isUnique attempts =
     (if \<not> isUnique \<and> attempts < maxAttempts
      then let u = generated_username fname lname (rnd attempts)
           in username_loop taken fname lname rnd (Some u) (\<not> taken u) (attempts + 1)
      else (uname, isUnique, attempts))"
  by pat_completeness auto
termination
  by (relation "measure (\<lambda>(taken, fname, lname, rnd, uname, isUnique, attempts). maxAttempts - attempts)") auto

declare username_loop.simps [simp del]

text \<open>
  \<open>generateUniqueUsername\<close>: after the loop, a name that is still not unique is replaced
  by \<open>user_\<close> and the first eight characters of a fresh UUID.
\<close>

definition generateUniqueUsername :: "store \<Rightarrow> string \<Rightarrow> string \<Rightarrow> (nat \<Rightarrow> rat) \<Rightarrow> string \<Rightarrow> string" where
  "generateUniqueUsername st fname lname rnd uuid =
     (case username_loop (username_taken st) fname lname rnd None False 0 of
        (uname, isUnique, attempts) \<Rightarrow>
          if \<not> isUnique then ''user_'' @ take 8 uuid
          else (case uname of Some u \<Rightarrow> u | None \<Rightarrow> []))"

text \<open>
  The username step of \<open>POST /api/admin/users\<close>: the same loop inside the transaction,
  but a name that is still not unique aborts the transaction and answers 500.
\<close>

definition create_user_username :: "store \<Rightarrow> string \<Rightarrow> string \<Rightarrow> (nat \<Rightarrow> rat) \<Rightarrow> outcome + string" where
  "create_user_username st fname lname rnd =
     (case username_loop (username_taken st) fname lname rnd None False 0 of
        (uname, isUnique, attempts) \<Rightarrow>
          if \<not> isUnique then Inl ServerError
          else (case uname of Some u \<Rightarrow> Inr u | None \<Rightarrow> Inr []))"

section \<open>Faculty dashboard: the attendance percentages\<close>

text \<open>
  The handlers of the faculty dashboard (src/unnamed/part_003) group the attendance
  records by status and compute the percentages from the groups. \<open>attendanceSummary\<close> is the list of groups.
\<close>

record status_count =
  sc_status :: attendance_status
  sc_count :: nat

definition totalAttendance :: "status_count list \<Rightarrow> nat" where
  "totalAttendance summary = foldl (\<lambda>sum item. sum + sc_count item) 0 summary"

definition presentAttendance :: "status_count list \<Rightarrow> nat" where
  "presentAttendance summary =
     (case find (\<lambda>item. sc_status item = Present) summary of None \<Rightarrow> 0 | Some item \<Rightarrow> sc_count item)"

definition attendancePercentage :: "status_count list \<Rightarrow> jsnum" where
  "attendancePercentage summary =
     (if 0 < totalAttendance summary
      then js_round (js_mul (js_div (Num (of_nat (presentAttendance summary)))
                                    (Num (of_nat (totalAttendance summary)))) (Num 100))
      else Num 0)"

text \<open>The histogram: \<open>Math.round((item.count / totalAttendance) * 100) || 0\<close> per group.\<close>

definition attendance_histogram :: "status_count list \<Rightarrow> (attendance_status \<times> nat \<times> jsnum) list" where
  "attendance_histogram summary =
     map (\<lambda>item. (sc_status item, sc_count item,
                  js_or_zero (js_round (js_mul (js_div (Num (of_nat (sc_count item)))
                                                       (Num (of_nat (totalAttendance summary))))
                                               (Num 100)))))
         summary"

text \<open>The per-student \<open>$cond\<close>: 0 when the student has no attendance record.\<close>

definition student_attendancePercentage :: "nat \<Rightarrow> nat \<Rightarrow> jsnum" where
  "student_attendancePercentage attendanceCount presentCount =
     (if attendanceCount = 0 then Num 0
      else js_mul (js_div (Num (of_nat presentCount)) (Num (of_nat attendanceCount))) (Num 100))"

section \<open>Trainer dashboard: src/utils/fileUpload.js, from line 58\<close>

subsection \<open>Batch overview\<close>

text \<open>
  The first aggregation: the batch's courses with their counts and mean progress
  (\<open>$ifNull\<close> turns a missing mean into 0).
\<close>

record course_row =
  cr_id :: oid
  cr_title :: string
  studentCount :: nat
  assignmentCount :: nat
  cr_averageProgress :: rat

definition overview_courses :: "store \<Rightarrow> batch \<Rightarrow> course_row list" where
  "overview_courses st b =
     map (\<lambda>c. \<lparr>cr_id = c_id c, cr_title = c_title c,
                studentCount = length (c_students c),
                assignmentCount = length (filter (\<lambda>a. a_course a = c_id c) (assignments st)),
                cr_averageProgress = (case avg (map progress (c_students c)) of None \<Rightarrow> 0 | Some v \<Rightarrow> v)\<rparr>)
         (filter (\<lambda>c. batchId c = Some (b_id b)) (courses st))"

text \<open>
  The second aggregation: every user enrolled in at least one course of the batch, with
  the enrolment sub-document of each such course (the first that names the user), sorted
  by mean progress, highest first. The display fields of the user are left out, and so
  is the rounding of each student's mean to two decimals in the reply.
\<close>

record student_row =
  sr_id :: oid
  coursesCompleted :: nat
  totalCourses :: nat
  sr_averageProgress :: "rat option"
  lastActive :: "int option"

definition enrolments_of :: "store \<Rightarrow> batch \<Rightarrow> user \<Rightarrow> enrollment option list" where
  "enrolments_of st b u =
     map (\<lambda>c. find (\<lambda>s. en_student s = u_id u) (c_students c))
         (filter (\<lambda>c. batchId c = Some (b_id b) \<and> u_id u \<in> set (map en_student (c_students c)))
                 (courses st))"

definition progress_of :: "enrollment option \<Rightarrow> rat option" where
  "progress_of e = (case e of None \<Rightarrow> None | Some s \<Rightarrow> progress s)"

definition latest :: "int option list \<Rightarrow> int option" where
  "latest xs = (let ts = List.map_filter (\<lambda>x. x) xs
                in if ts = [] then None else Some (foldr max ts (hd ts)))"

definition overview_students :: "store \<Rightarrow> batch \<Rightarrow> student_row list" where
  "overview_students st b =
     rev (sort_key sr_averageProgress
       (List.map_filter
          (\<lambda>u. let es = enrolments_of st b u in
                if es = [] then None
                else Some \<lparr>sr_id = u_id u,
                           coursesCompleted =
                             length (filter (\<lambda>e. case progress_of e of None \<Rightarrow> False | Some v \<Rightarrow> 100 \<le> v) es),
                           totalCourses = length es,
                           sr_averageProgress = avg (map progress_of es),
                           lastActive = latest (map (\<lambda>e. case e of None \<Rightarrow> None | Some s \<Rightarrow> lastAccessed s) es)\<rparr>)
          (users st)))"

text \<open>
  The statistics computed in JavaScript from the two result lists. \<open>batchProgress\<close> is
  guarded by \<open>students.length > 0\<close>; \<open>completionRate\<close> divides by \<open>totalStudents\<close> under
  the guard \<open>totalCourses > 0\<close>.
\<close>

definition batchProgress :: "student_row list \<Rightarrow> jsnum" where
  "batchProgress rows =
     (if 0 < length rows
      then js_div (foldl (\<lambda>sum s. js_add sum (Num (case sr_averageProgress s of None \<Rightarrow> 0 | Some v \<Rightarrow> v)))
                         (Num 0) rows)
                  (Num (of_nat (length rows)))
      else Num 0)"

definition completionRate :: "nat \<Rightarrow> student_row list \<Rightarrow> jsnum" where
  "completionRate totalCourses' rows =
     (if 0 < totalCourses'
      then js_round (js_mul (js_div
             (Num (of_nat (length (filter (\<lambda>s. case sr_averageProgress s of None \<Rightarrow> False | Some v \<Rightarrow> 100 \<le> v) rows))))
             (Num (of_nat (length rows)))) (Num 100))
      else Num 0)"

record overview =
  ov_batch :: oid
  ov_totalStudents :: nat
  ov_totalCourses :: nat
  ov_averageProgress :: jsnum
  ov_completionRate :: jsnum
  ov_courses :: "course_row list"
  ov_students :: "student_row list"

text \<open>
  \<open>GET /api/trainer/batches/:batchId/overview\<close>. The batch is looked up by its id and
  the trainer's membership at once; when nothing is found the answer is 404
  (``Batch not found or access denied'').
\<close>

definition batch_overview :: "store \<Rightarrow> principal \<Rightarrow> oid \<Rightarrow> outcome + overview" where
  "batch_overview st p bid =
     (if p_role p \<noteq> Trainer then Inl Forbidden
      else case find (\<lambda>b. b_id b = bid \<and> p_id p \<in> set (trainers b)) (batches st) of
        None \<Rightarrow> Inl NotFound
      | Some b \<Rightarrow>
          let cs = overview_courses st b;
              rows = overview_students st b
          in Inr \<lparr>ov_batch = b_id b,
                  ov_totalStudents = length rows,
                  ov_totalCourses = length cs,
                  ov_averageProgress = js_div (js_round (js_mul (batchProgress rows) (Num 100))) (Num 100),
                  ov_completionRate = completionRate (length cs) rows,
                  ov_courses = cs,
                  ov_students = rows\<rparr>)"

subsection \<open>Dashboard\<close>

text \<open>
  In the aggregation over assignments the \<open>course\<close> field is an ObjectId until the
  \<open>$lookup\<close> stage replaces it by the course document. The path \<open>course.instructor\<close>
  has a value only in the second case.
\<close>

datatype course_field = Course_ref oid | Course_doc course

fun course_instructor_path :: "course_field \<Rightarrow> oid option" where
  "course_instructor_path (Course_ref c) = None"
| "course_instructor_path (Course_doc c) = instructor c"

record submission_row =
  assignmentId :: oid
  assignmentTitle :: string
  courseId :: oid
  courseTitle :: string
  row_batchId :: "oid option"
  row_studentId :: oid
  studentName :: string
  row_rollNumber :: "string option"
  row_submittedAt :: "int option"
  row_status :: submission_status
  row_grade :: "rat option"
  row_feedback :: "string option"

text \<open>
  The stages of the \<open>recentSubmissions\<close> pipeline, in the order of the source: the first
  \<open>$match\<close> (on the course ids when a batch is given, else on \<open>course.instructor\<close>), the
  \<open>$lookup\<close> of the course with its \<open>$unwind\<close>, the \<open>$unwind\<close> of the submissions, the
  \<open>$match\<close> on \<open>submittedAt\<close>, \<open>$sort\<close> and \<open>$limit\<close>, the \<open>$lookup\<close> of the student with
  its \<open>$unwind\<close>, and the \<open>$project\<close>.
\<close>

definition first_match :: "bool \<Rightarrow> oid list \<Rightarrow> oid \<Rightarrow> (assignment \<times> course_field) list
                           \<Rightarrow> (assignment \<times> course_field) list" where
  "first_match by_batch courseIds uid docs =
     filter (\<lambda>(a, cf). if by_batch then (case cf of Course_ref c \<Rightarrow> c \<in> set courseIds | Course_doc c \<Rightarrow> False)
                        else course_instructor_path cf = Some uid)
            docs"

definition lookup_course :: "store \<Rightarrow> (assignment \<times> course_field) list \<Rightarrow> (assignment \<times> course) list" where
  "lookup_course st docs =
     concat (map (\<lambda>(a, cf). map (\<lambda>c. (a, c)) (filter (\<lambda>c. cf = Course_ref (c_id c)) (courses st))) docs)"

definition unwind_submissions :: "(assignment \<times> course) list \<Rightarrow> (assignment \<times> course \<times> submission) list" where
  "unwind_submissions docs = concat (map (\<lambda>(a, c). map (\<lambda>s. (a, c, s)) (submissions a)) docs)"

definition lookup_student ::
  "store \<Rightarrow> (assignment \<times> course \<times> submission) list \<Rightarrow> (assignment \<times> course \<times> submission \<times> user) list" where
  "lookup_student st docs =
     concat (map (\<lambda>(a, c, s). map (\<lambda>u. (a, c, s, u)) (filter (\<lambda>u. u_id u = sub_student s) (users st))) docs)"

definition project_row :: "assignment \<times> course \<times> submission \<times> user \<Rightarrow> submission_row" where
  "project_row d =
     (case d of (a, c, s, u) \<Rightarrow>
        \<lparr>assignmentId = a_id a, assignmentTitle = a_title a, courseId = c_id c, courseTitle = c_title c,
         row_batchId = batchId c, row_studentId = sub_student s,
         studentName = firstName u @ '' '' @ lastName u, row_rollNumber = u_rollNumber u,
         row_submittedAt = submittedAt s, row_status = sub_status s, row_grade = grade s,
         row_feedback = feedback s\<rparr>)"

definition recent_submissions :: "store \<Rightarrow> bool \<Rightarrow> oid list \<Rightarrow> oid \<Rightarrow> submission_row list" where
  "recent_submissions st by_batch courseIds uid =
     map project_row
       (lookup_student st
          (take 10
             (rev (sort_key (\<lambda>(a, c, s). submittedAt s)
                (filter (\<lambda>(a, c, s). submittedAt s \<noteq> None)
                   (unwind_submissions
                      (lookup_course st
                         (first_match by_batch courseIds uid
                            (map (\<lambda>a. (a, Course_ref (a_course a))) (assignments st))))))))))"

text \<open>
  The courses are loaded with \<open>populate('students.student', limit 5)\<close>. Mongoose fetches
  the referenced users of all loaded courses in one query, whose limit is the given
  limit times the number of courses; the order in which the database returns them is
  the order of \<open>users\<close> in the store. An enrolment whose user is not among the fetched
  ones (a deleted user, or one beyond the limit) has \<open>student\<close> set to \<open>null\<close>.
\<close>

definition populated_students :: "store \<Rightarrow> course list \<Rightarrow> oid list" where
  "populated_students st cs =
     map u_id (take (5 * length cs)
       (filter (\<lambda>u. u_id u \<in> set (concat (map (\<lambda>c. map en_student (c_students c)) cs))) (users st)))"

definition all_populated :: "store \<Rightarrow> course list \<Rightarrow> bool" where
  "all_populated st cs =
     list_all (\<lambda>c. list_all (\<lambda>e. en_student e \<in> set (populated_students st cs)) (c_students c)) cs"

text \<open>
  \<open>GET /api/trainer/dashboard\<close>: the trainer's courses, narrowed to a batch the trainer
  belongs to when \<open>batchId\<close> is given (403 otherwise), the assignments of these courses
  that are due from now on, nearest first and at most five, the recent submissions, and
  with \<open>batchId\<close> the \<open>batchStats\<close>: the number of courses, of distinct enrolled
  students and of upcoming assignments. Counting the students reads \<open>s.student._id\<close>,
  which throws on a \<open>null\<close> student; the handler then answers 500.
\<close>

record dashboard =
  db_batchId :: "oid option"
  db_courses :: "course list"
  upcomingAssignments :: "assignment list"
  recentSubmissions :: "submission_row list"
  batchStats :: "(nat \<times> nat \<times> nat) option"

definition trainer_dashboard :: "store \<Rightarrow> principal \<Rightarrow> oid option \<Rightarrow> int \<Rightarrow> outcome + dashboard" where
  "trainer_dashboard st p bid now =
     (if p_role p \<noteq> Trainer then Inl Forbidden
      else if (case bid of None \<Rightarrow> False
               | Some b \<Rightarrow> find (\<lambda>x. b_id x = b \<and> p_id p \<in> set (trainers x)) (batches st) = None)
      then Inl Forbidden
      else
        let cs = filter (\<lambda>c. instructor c = Some (p_id p) \<and>
                             (case bid of None \<Rightarrow> True | Some b \<Rightarrow> batchId c = Some b)) (courses st);
            courseIds = map c_id cs;
            upcoming = take 5 (sort_key dueDate
                         (filter (\<lambda>a. a_course a \<in> set courseIds \<and> now \<le> dueDate a) (assignments st)))
        in if bid \<noteq> None \<and> \<not> all_populated st cs then Inl ServerError
           else Inr \<lparr>db_batchId = bid,
                     db_courses = cs,
                     upcomingAssignments = upcoming,
                     recentSubmissions = recent_submissions st (bid \<noteq> None) courseIds (p_id p),
                     batchStats =
                       (if bid \<noteq> None
                        then Some (length cs,
                                   length (remdups (concat (map (\<lambda>c. map en_student (c_students c)) cs))),
                                   length upcoming)
                        else None)\<rparr>)"

subsection \<open>Course assignments, submissions and feedback\<close>

text \<open>
  \<open>GET /api/trainer/courses/:courseId/assignments\<close>: the course is looked up by id and
  instructor at once; 404 (``Course not found or not authorized'') when nothing is found.
\<close>

definition course_assignments :: "store \<Rightarrow> principal \<Rightarrow> oid \<Rightarrow> outcome + assignment list" where
  "course_assignments st p cid =
     (if p_role p \<noteq> Trainer then Inl Forbidden
      else case find (\<lambda>c. c_id c = cid \<and> instructor c = Some (p_id p)) (courses st) of
        None \<Rightarrow> Inl NotFound
      | Some c \<Rightarrow> Inr (sort_key dueDate (filter (\<lambda>a. a_course a = c_id c) (assignments st))))"

text \<open>
  The instructor of an assignment's populated course; reading it from a missing
  assignment, a missing course or a course without instructor throws (500).
\<close>

definition instructor_of :: "store \<Rightarrow> assignment option \<Rightarrow> oid option" where
  "instructor_of st a =
     (case a of None \<Rightarrow> None
      | Some x \<Rightarrow> (case find (\<lambda>c. c_id c = a_course x) (courses st) of None \<Rightarrow> None | Some c \<Rightarrow> instructor c))"

text \<open>\<open>GET /api/trainer/assignments/:assignmentId/submissions\<close>.\<close>

definition assignment_submissions :: "store \<Rightarrow> principal \<Rightarrow> oid \<Rightarrow> outcome + submission list" where
  "assignment_submissions st p aid =
     (if p_role p \<noteq> Trainer then Inl Forbidden
      else case find (\<lambda>a. a_id a = aid) (assignments st) of
        None \<Rightarrow> Inl ServerError
      | Some a \<Rightarrow>
          (case instructor_of st (Some a) of
             None \<Rightarrow> Inl ServerError
           | Some i \<Rightarrow> if i \<noteq> p_id p then Inl Forbidden else Inr (submissions a)))"

text \<open>
  \<open>POST /api/trainer/submissions/:submissionId/feedback\<close>, the trainer's write: \<open>g\<close> is
  the grade when the body's \<open>grade\<close> is numeric, \<open>fb\<close> the feedback text.
\<close>

definition submission_feedback ::
  "store \<Rightarrow> principal \<Rightarrow> oid \<Rightarrow> rat option \<Rightarrow> string \<Rightarrow> outcome \<times> store" where
  "submission_feedback st p sid g fb =
     (if p_role p \<noteq> Trainer then (Forbidden, st)
      else if g = None \<or> fb = [] then (BadRequest, st)
      else case find (\<lambda>a. sid \<in> set (map sub_id (submissions a))) (assignments st) of
        None \<Rightarrow> (NotFound, st)
      | Some a \<Rightarrow>
          (case instructor_of st (Some a) of
             None \<Rightarrow> (ServerError, st)
           | Some i \<Rightarrow>
               if i \<noteq> p_id p then (Forbidden, st)
               else (Success,
                     st\<lparr>assignments :=
                          map (\<lambda>x. if a_id x = a_id a
                                    then x\<lparr>submissions :=
                                           map (\<lambda>s. if sub_id s = sid
                                                     then s\<lparr>grade := g, feedback := Some (trim fb),
                                                            sub_status := Sub_graded\<rparr>
                                                     else s)
                                               (submissions x)\<rparr>
                                    else x)
                              (assignments st)\<rparr>)))"

text \<open>The batches and courses a trainer is assigned to.\<close>

definition assigned_batches :: "store \<Rightarrow> oid \<Rightarrow> oid list" where
  "assigned_batches st uid = map b_id (filter (\<lambda>b. uid \<in> set (trainers b)) (batches st))"

definition assigned_courses :: "store \<Rightarrow> oid \<Rightarrow> oid list" where
  "assigned_courses st uid = map c_id (filter (\<lambda>c. instructor c = Some uid) (courses st))"

section \<open>Assignment resources: the second document of src/routes/reports.js\<close>

text \<open>
  \<open>POST /api/assignment-resources/:assignmentId/upload\<close> (line 543):
  \<open>authorize('trainer')\<close>, the upload middleware, then the handler, which holds two
  \<open>try\<close> blocks one after the other. Every error path of the first block returns from
  the handler or, for a thrown error, answers 500. Its success path pushes a resource,
  saves, sends 201 and does not return, so the second block runs too: it loads the
  assignment again, pushes a second resource with the other \<open>fileUrl\<close> and saves. What
  the second block then does with the response comes after the response was sent. No
  block compares the assignment's course or its instructor with the caller.

  \<open>file\<close> is the name under which the middleware stored the file of the request, if
  the request has one (a file the middleware refuses is not modelled). Without a file,
  \<open>req.file.filename\<close> throws in both blocks before anything is pushed.
\<close>

definition upload_resource ::
  "store \<Rightarrow> principal \<Rightarrow> oid \<Rightarrow> string \<Rightarrow> string option \<Rightarrow> outcome \<times> store" where
  "upload_resource st p aid resourceType file =
     (if p_role p \<noteq> Trainer then (Forbidden, st)
      else case find (\<lambda>a. a_id a = aid) (assignments st) of
        None \<Rightarrow> (NotFound, st)
      | Some a \<Rightarrow>
          if resourceType \<notin> set [''notes'', ''ppt''] then (BadRequest, st)
          else if resourceType \<notin> set (trainerResources a) then (BadRequest, st)
          else
            (case file of
               None \<Rightarrow> (ServerError, st)
             | Some filename \<Rightarrow>
                 let first = \<lparr>res_type = resourceType,
                              fileUrl = In_assignment_folder aid filename,
                              uploadedBy = p_id p\<rparr>;
                     second = \<lparr>res_type = resourceType, fileUrl = In_uploads filename,
                               uploadedBy = p_id p\<rparr>
                 in (Created,
                     st\<lparr>assignments :=
                          map (\<lambda>x. if a_id x = aid
                                    then x\<lparr>resources := resources x @ [first] @ [second]\<rparr> else x)
                              (assignments st)\<rparr>)))"

section \<open>User deletion\<close>

text \<open>\<open>deleteOne\<close> and \<open>findOneAndDelete\<close> remove the first document that matches.\<close>

fun delete_one :: "('a \<Rightarrow> bool) \<Rightarrow> 'a list \<Rightarrow> 'a list" where
  "delete_one P [] = []"
| "delete_one P (x # xs) = (if P x then xs else x # delete_one P xs)"

text \<open>
  The \<open>:userId\<close> path parameter of the two \<open>/users/:userId\<close> routes is a string, and
  their self-deletion guard compares strings: \<open>userId === req.user._id.toString()\<close>.
  \<open>toString\<close> gives the 24 hexadecimal digits of an ObjectId in lower case, while
  \<open>findById\<close> casts any spelling of the digits to the ObjectId. \<open>Canonical n\<close> is the
  lower-case spelling of \<open>n\<close>, \<open>Other_spelling n\<close> one with an upper-case digit (an id
  with a digit among \<open>a\<close> to \<open>f\<close> has such spellings), and \<open>Malformed\<close> a string that is
  no ObjectId (the cast throws, the handler answers 500).
\<close>

datatype id_param = Canonical oid | Other_spelling oid | Malformed

fun cast_id :: "id_param \<Rightarrow> oid option" where
  "cast_id (Canonical n) = Some n"
| "cast_id (Other_spelling n) = Some n"
| "cast_id Malformed = None"

text \<open>
  \<open>DELETE /api/admin/users/:userId\<close> of src/routes/adminUserManagement.js: super-admin
  only, no self-deletion, no deletion of a super-admin; then the cleanup by role and
  the deletion of the user, in one transaction.
\<close>

definition admin_delete_user :: "store \<Rightarrow> principal \<Rightarrow> id_param \<Rightarrow> outcome \<times> store" where
  "admin_delete_user st p userId =
     (if p_role p \<noteq> Superadmin then (Forbidden, st)
      else if userId = Canonical (p_id p) then (BadRequest, st)
      else case cast_id userId of
        None \<Rightarrow> (ServerError, st)
      | Some uid \<Rightarrow>
     (case find (\<lambda>u. u_id u = uid) (users st) of
        None \<Rightarrow> (NotFound, st)
      | Some u \<Rightarrow>
          if u_role u = Superadmin then (Forbidden, st)
          else
            let st1 =
              (if u_role u = Student
               then st\<lparr>batches := map (\<lambda>b. b\<lparr>b_students := filter (\<lambda>x. x \<noteq> u_id u) (b_students b)\<rparr>) (batches st),
                       students := delete_one (\<lambda>s. sp_user s = u_id u) (students st)\<rparr>
               else if u_role u = Trainer
               then st\<lparr>batches := map (\<lambda>b. b\<lparr>trainers := filter (\<lambda>x. x \<noteq> u_id u) (trainers b)\<rparr>) (batches st),
                       courses := map (\<lambda>c. c\<lparr>instructors := filter (\<lambda>x. x \<noteq> u_id u) (instructors c)\<rparr>) (courses st)\<rparr>
               else if u_role u = Faculty
               then st\<lparr>courses := map (\<lambda>c. if c_faculty c = Some (u_id u) then c\<lparr>c_faculty := None\<rparr> else c)
                                       (courses st)\<rparr>
               else st)
            in (Success, st1\<lparr>users := delete_one (\<lambda>x. u_id x = uid) (users st1)\<rparr>)))"

text \<open>
  \<open>DELETE /api/super-admin/users/:userId\<close> (src/routes/auth.js, line 734): super-admin
  only, no self-deletion; the cleanup is a \<open>switch\<close> on the role.
\<close>

definition superadmin_delete_user :: "store \<Rightarrow> principal \<Rightarrow> id_param \<Rightarrow> outcome \<times> store" where
  "superadmin_delete_user st p userId =
     (if p_role p \<noteq> Superadmin then (Forbidden, st)
      else if userId = Canonical (p_id p) then (BadRequest, st)
      else case cast_id userId of
        None \<Rightarrow> (ServerError, st)
      | Some uid \<Rightarrow>
     (case find (\<lambda>u. u_id u = uid) (users st) of
        None \<Rightarrow> (NotFound, st)
      | Some u \<Rightarrow>
          let st1 =
            (case u_role u of
               Admin \<Rightarrow>
                 st\<lparr>batches := map (\<lambda>b. if b_createdBy b = u_id u then b\<lparr>b_createdBy := p_id p\<rparr> else b)
                                    (batches st)\<rparr>
             | Trainer \<Rightarrow>
                 st\<lparr>batches := map (\<lambda>b. b\<lparr>trainers := filter (\<lambda>x. x \<noteq> u_id u) (trainers b)\<rparr>) (batches st),
                    courses := map (\<lambda>c. if instructor c = Some (u_id u) then c\<lparr>instructor := None\<rparr> else c)
                                   (courses st)\<rparr>
             | Faculty \<Rightarrow>
                 st\<lparr>students := map (\<lambda>s. if assignedFaculty s = Some (u_id u)
                                          then s\<lparr>assignedFaculty := None\<rparr> else s) (students st)\<rparr>
             | Student \<Rightarrow>
                 st\<lparr>courses := map (\<lambda>c. c\<lparr>c_students := filter (\<lambda>e. en_student e \<noteq> u_id u) (c_students c)\<rparr>)
                                    (courses st),
                    assignments := map (\<lambda>a. a\<lparr>submissions := filter (\<lambda>s. sub_student s \<noteq> u_id u)
                                                                       (submissions a)\<rparr>) (assignments st),
                    attendances := filter (\<lambda>x. at_student x \<noteq> u_id u) (attendances st),
                    students := delete_one (\<lambda>s. sp_user s = u_id u) (students st)\<rparr>
             | Superadmin \<Rightarrow> st)
          in (Success, st1\<lparr>users := delete_one (\<lambda>x. u_id x = uid) (users st1)\<rparr>)))"

text \<open>
  \<open>DELETE /api/student/:studentId\<close> (src/unnamed/part_002, line 467): admin only.
  The user with the given id is deleted first, whatever its role; then the profile with
  the user's roll number, and the reports whose \<open>student\<close> is the given id. The route
  compares no strings, so its parameter is the ObjectId the string is cast to.
\<close>

definition delete_student :: "store \<Rightarrow> principal \<Rightarrow> oid \<Rightarrow> outcome \<times> store" where
  "delete_student st p studentId =
     (if p_role p \<noteq> Admin then (Forbidden, st)
      else case find (\<lambda>u. u_id u = studentId) (users st) of
        None \<Rightarrow> (NotFound, st)
      | Some deletedUser \<Rightarrow>
          let st1 = st\<lparr>users := delete_one (\<lambda>u. u_id u = studentId) (users st)\<rparr>;
              st2 = (case studentInfo_rollNumber deletedUser of
                       None \<Rightarrow> st1
                     | Some rn \<Rightarrow>
                         if rn = [] then st1
                         else st1\<lparr>students := delete_one (\<lambda>s. sp_rollNumber s = Some rn) (students st1)\<rparr>)
          in (Success, st2\<lparr>reports := filter (\<lambda>r. r_student r \<noteq> studentId) (reports st2)\<rparr>))"

text \<open>
  A reference to a user that a deletion may leave behind: in a batch's student set, a
  course's enrolment, an assignment's submissions, an attendance record or a profile.
\<close>

definition dangling :: "store \<Rightarrow> oid \<Rightarrow> bool" where
  "dangling st uid =
     (list_ex (\<lambda>b. uid \<in> set (b_students b)) (batches st) \<or>
      list_ex (\<lambda>c. uid \<in> set (map en_student (c_students c))) (courses st) \<or>
      list_ex (\<lambda>a. uid \<in> set (map sub_student (submissions a))) (assignments st) \<or>
      list_ex (\<lambda>x. at_student x = uid) (attendances st) \<or>
      list_ex (\<lambda>s. sp_user s = uid) (students st))"

section \<open>Example data\<close>

text \<open>
  A store with one report of student profile 7, whose assigned faculty is user 3; the
  report's status is the argument.
\<close>

definition report_example :: "report_status \<Rightarrow> store" where
  "report_example s =
     \<lparr>users = [],
      students = [\<lparr>sp_id = 7, sp_user = 2, sp_rollNumber = None, assignedFaculty = Some 3\<rparr>],
      batches = [], courses = [], assignments = [], attendances = [],
      reports = [\<lparr>r_id = 1, r_student = 7, r_createdBy = 2, r_status = s,
                  statusHistory = [], comments = [], r_updatedAt = None\<rparr>]\<rparr>"

text \<open>
  The same report after it was created as \<open>submitted\<close> by user 2 and moved to \<open>reviewed\<close>
  by a comment of user 3: its history holds the two entries of the \<open>pre('save')\<close> hook.
\<close>

definition reviewed_example :: store where
  "reviewed_example =
     (report_example Reviewed)
       \<lparr>reports :=
          [\<lparr>r_id = 1, r_student = 7, r_createdBy = 2, r_status = Reviewed,
            statusHistory =
              [\<lparr>he_status = Submitted, changedBy = 2, changedAt = 10, he_comment = None\<rparr>,
               \<lparr>he_status = Reviewed, changedBy = 2, changedAt = 20, he_comment = None\<rparr>],
            comments = [], r_updatedAt = Some 20\<rparr>]\<rparr>"

text \<open>
  The batch of the overview scenario: CS24, from 2024-01-01 to 2024-06-01 (UTC), and the
  same batch ending on the day it starts.
\<close>

definition cs24 :: batch where
  "cs24 = \<lparr>b_id = 1, b_name = ''CS 2024'', b_description = ''Computer science'', b_code = ''CS24'',
           startDate = 1704067200000, endDate = 1717200000000,
           trainers = [5], b_students = [], b_createdBy = 9, maxStudents = 30\<rparr>"



text \<open>
  Three users, a super-admin, an admin and a student, and the query string that carries
  a \<open>role\<close> parameter only.
\<close>

definition listing_example :: store where
  "listing_example =
     \<lparr>users = [\<lparr>u_id = 1, u_role = Superadmin, username = ''root'', email = ''root@college.edu'',
                firstName = ''Root'', lastName = ''User'', u_rollNumber = None,
                studentInfo_rollNumber = None, isActive = True, createdAt = 10\<rparr>,
              \<lparr>u_id = 2, u_role = Admin, username = ''ann'', email = ''ann@college.edu'',
                firstName = ''Ann'', lastName = ''Lee'', u_rollNumber = None,
                studentInfo_rollNumber = None, isActive = True, createdAt = 20\<rparr>,
              \<lparr>u_id = 3, u_role = Student, username = ''bob'', email = ''bob@college.edu'',
                firstName = ''Bob'', lastName = ''Ray'', u_rollNumber = None,
                studentInfo_rollNumber = Some ''STU1'', isActive = True, createdAt = 30\<rparr>],
      students = [], batches = [], courses = [], assignments = [], attendances = [], reports = []\<rparr>"

definition role_only :: "string option \<Rightarrow> users_query" where
  "role_only r = \<lparr>q_page = None, q_limit = None, q_role = r, q_isActive = None, q_search = None\<rparr>"

text \<open>A store whose only user already has the username \<open>alb100\<close>.\<close>

definition taken_example :: store where
  "taken_example =
     \<lparr>users = [\<lparr>u_id = 4, u_role = Student, username = ''alb100'', email = ''alb100@college.edu'',
                firstName = ''Al'', lastName = ''Bo'', u_rollNumber = None,
                studentInfo_rollNumber = None, isActive = True, createdAt = 5\<rparr>],
      students = [], batches = [], courses = [], assignments = [], attendances = [], reports = []\<rparr>"

text \<open>
  A small college: the super-admin 1, the admin 2, the student 3 with profile 7, the
  trainers 5 and 6. Batch CS24 has trainer 5 and student 3; its course 10 is taught by
  trainer 5 and has student 3 enrolled; assignment 100 of the course holds one submission
  of student 3, who also has one attendance record.
\<close>

definition campus :: store where
  "campus =
     \<lparr>users =
        [\<lparr>u_id = 1, u_role = Superadmin, username = ''root'', email = ''root@college.edu'',
          firstName = ''Root'', lastName = ''User'', u_rollNumber = None,
          studentInfo_rollNumber = None, isActive = True, createdAt = 10\<rparr>,
         \<lparr>u_id = 2, u_role = Admin, username = ''ann'', email = ''ann@college.edu'',
          firstName = ''Ann'', lastName = ''Lee'', u_rollNumber = None,
          studentInfo_rollNumber = None, isActive = True, createdAt = 20\<rparr>,
         \<lparr>u_id = 3, u_role = Student, username = ''bob'', email = ''bob@college.edu'',
          firstName = ''Bob'', lastName = ''Ray'', u_rollNumber = Some ''STU1'',
          studentInfo_rollNumber = Some ''STU1'', isActive = True, createdAt = 30\<rparr>,
         \<lparr>u_id = 5, u_role = Trainer, username = ''tia'', email = ''tia@college.edu'',
          firstName = ''Tia'', lastName = ''Moss'', u_rollNumber = None,
          studentInfo_rollNumber = None, isActive = True, createdAt = 40\<rparr>,
         \<lparr>u_id = 6, u_role = Trainer, username = ''tom'', email = ''tom@college.edu'',
          firstName = ''Tom'', lastName = ''Hill'', u_rollNumber = None,
          studentInfo_rollNumber = None, isActive = True, createdAt = 50\<rparr>],
      students = [\<lparr>sp_id = 7, sp_user = 3, sp_rollNumber = Some ''STU1'', assignedFaculty = None\<rparr>],
      batches = [cs24\<lparr>b_students := [3]\<rparr>],
      courses = [\<lparr>c_id = 10, c_title = ''Algorithms'', instructor = Some 5, instructors = [],
                  c_faculty = None,
                  c_students = [\<lparr>en_student = 3, progress = Some 40, lastAccessed = Some 400\<rparr>],
                  batchId = Some 1\<rparr>],
      assignments = [\<lparr>a_id = 100, a_title = ''Sorting'', a_course = 10, dueDate = 2000,
                      trainerResources = [''notes''], resources = [],
                      submissions = [\<lparr>sub_id = 1000, sub_student = 3, submittedAt = Some 500,
                                      grade = None, feedback = None, sub_status = Sub_submitted\<rparr>]\<rparr>],
      attendances = [\<lparr>at_student = 3, at_course = 10, at_date = 100, at_status = Present\<rparr>],
      reports = []\<rparr>"

text \<open>The same college before anyone has enrolled in the course.\<close>

definition campus_unenrolled :: store where
  "campus_unenrolled = campus\<lparr>courses := map (\<lambda>c. c\<lparr>c_students := []\<rparr>) (courses campus)\<rparr>"

text \<open>The principals of four of the users.\<close>

definition root :: principal where
  "root = \<lparr>p_id = 1, p_role = Superadmin\<rparr>"
definition ann :: principal where
  "ann = \<lparr>p_id = 2, p_role = Admin\<rparr>"
definition tia :: principal where
  "tia = \<lparr>p_id = 5, p_role = Trainer\<rparr>"
definition tom :: principal where
  "tom = \<lparr>p_id = 6, p_role = Trainer\<rparr>"

section \<open>Properties\<close>

lemma find_map_replace:
  "find (\<lambda>r. r_id r = rid) rs = Some r0 \<Longrightarrow> r_id d = rid \<Longrightarrow>
   find (\<lambda>r. r_id r = rid) (map (\<lambda>r. if r_id r = rid then d else r) rs) = Some d"
  by (induction rs) (auto split: if_splits)

subsection \<open>Reports\<close>

lemma find_id: "find (\<lambda>r. r_id r = rid) rs = Some r \<Longrightarrow> r_id r = rid"
  by (induction rs) (auto split: if_splits)

lemma r_status_pre_save:
  "r_status (pre_save_comments l (pre_save_status b l doc now) now) = r_status doc"
  by (simp add: pre_save_comments_def pre_save_status_def Let_def)

lemma statusHistory_pre_save:
  "statusHistory (pre_save_comments l (pre_save_status b l doc now) now) =
     statusHistory doc @
       (if b \<or> r_status doc \<noteq> r_status l
        then [\<lparr>he_status = r_status doc, changedBy = r_createdBy doc, changedAt = now, he_comment = None\<rparr>]
        else [])"
  by (simp add: pre_save_comments_def pre_save_status_def Let_def)

lemma save_report_get:
  assumes "get_report st rid = Some r" "r_id doc = rid" "save_report st r doc now = Some st'"
  shows "get_report st' rid = Some (pre_save_comments r (pre_save_status False r doc now) now)"
proof -
  let ?d = "pre_save_comments r (pre_save_status False r doc now) now"
  have st': "st' = st\<lparr>reports := map (\<lambda>x. if r_id x = rid then ?d else x) (reports st)\<rparr>"
    using assms(2,3) by (simp add: save_report_def Let_def split: if_splits)
  have "r_id ?d = rid"
    using assms(2) by (simp add: pre_save_comments_def pre_save_status_def Let_def)
  with assms(1) show ?thesis
    unfolding st' get_report_def by (simp add: find_map_replace)
qed

text \<open>An authorised comment reaches the save; an authorised status update does too.\<close>

lemma add_comment_authorized:
  assumes found': "find (\<lambda>r. r_id r = rid) (reports st) = Some r"
    and student: "find (\<lambda>s. sp_id s = r_student r) (students st) = Some s"
    and faculty: "assignedFaculty s = Some f"
    and auth: "f = p_id p \<or> p_role p = Admin"
    and nonempty: "raw \<noteq> []"
  shows "add_comment escape st p rid raw now =
          (case save_report st r (commented escape p r raw now) now of
             None \<Rightarrow> (ServerError, st)
           | Some st' \<Rightarrow> (Created, st'))"
proof -
  have nauth: "(f \<noteq> p_id p \<and> p_role p \<noteq> Admin) = False"
    using auth by blast
  show ?thesis
    unfolding add_comment_def commented_def
    by (simp only: found' student faculty nonempty nauth if_False option.case Let_def)
qed

lemma update_status_authorized:
  assumes found': "find (\<lambda>r. r_id r = rid) (reports st) = Some r"
    and student: "find (\<lambda>x. sp_id x = r_student r) (students st) = Some s"
    and auth: "assignedFaculty s = Some (p_id p) \<or> p_role p = Admin"
    and parsed: "status_of_string status = Some s'"
  shows "update_status st p rid status cmt now =
          (case save_report st r
                  (r\<lparr>r_status := s', r_updatedAt := Some now,
                      statusHistory := statusHistory r @
                        [\<lparr>he_status = s', changedBy = p_id p, changedAt = now,
                          he_comment = Some (trim (case cmt of None \<Rightarrow> [] | Some t \<Rightarrow> t))\<rparr>]\<rparr>) now of
             None \<Rightarrow> (ServerError, st)
           | Some st' \<Rightarrow> (Success, st'))"
proof -
  have nauth: "(assignedFaculty s \<noteq> Some (p_id p) \<and> p_role p \<noteq> Admin) = False"
    using auth by blast
  show ?thesis
    unfolding update_status_def
    by (simp only: found' student parsed nauth if_False option.case Let_def)
qed

text \<open>
  C8. A comment by a reviewer (the student's assigned faculty or an admin, not a student)
  is accepted, and the report's status afterwards is \<open>reviewed\<close> when it was \<open>submitted\<close>
  and is the status it had in every other case.
\<close>

theorem add_comment_status:
  assumes found: "get_report st rid = Some r"
    and student: "find (\<lambda>s. sp_id s = r_student r) (students st) = Some s"
    and faculty: "assignedFaculty s = Some f"
    and auth: "f = p_id p \<or> p_role p = Admin"
    and reviewer: "p_role p \<noteq> Student"
    and nonempty: "raw \<noteq> []"
    and vtext: "valid_comment \<lparr>cm_user = p_id p, cm_text = trim (escape (trim raw)),
                 cm_createdAt = Some now, cm_updatedAt = None\<rparr>"
  shows "\<exists>st' r'. add_comment escape st p rid raw now = (Created, st') \<and>
           get_report st' rid = Some r' \<and>
           r_status r' = (if r_status r = Submitted then Reviewed else r_status r)"
proof -
  define doc' where "doc' = commented escape p r raw now"
  have rid: "r_id r = rid"
    using found unfolding get_report_def by (rule find_id)
  have found': "find (\<lambda>r. r_id r = rid) (reports st) = Some r"
    using found by (simp add: get_report_def)
  have cs: "comments doc' = comments r @ [\<lparr>cm_user = p_id p, cm_text = trim (escape (trim raw)),
                 cm_createdAt = Some now, cm_updatedAt = None\<rparr>]"
    and hs: "statusHistory doc' = statusHistory r"
    and id': "r_id doc' = rid"
    and status': "r_status doc' = (if r_status r = Submitted then Reviewed else r_status r)"
    using rid reviewer by (simp_all add: doc'_def commented_def Let_def)
  have valid: "validate_report r doc'"
    using vtext by (simp add: validate_report_def cs hs)
  then obtain st' where saved: "save_report st r doc' now = Some st'"
    by (simp add: save_report_def Let_def)
  have out: "add_comment escape st p rid raw now = (Created, st')"
    using add_comment_authorized [OF found' student faculty auth nonempty, of escape now] saved
    by (simp add: doc'_def)
  from save_report_get [OF found id' saved]
  have got: "get_report st' rid = Some (pre_save_comments r (pre_save_status False r doc' now) now)" .
  have "r_status (pre_save_comments r (pre_save_status False r doc' now) now)
        = (if r_status r = Submitted then Reviewed else r_status r)"
    by (simp only: r_status_pre_save status')
  with out got show ?thesis by blast
qed

text \<open>
  The faculty member 3 comments on the report of their student: from \<open>submitted\<close> the
  report moves to \<open>reviewed\<close>, from \<open>approved\<close> it stays \<open>approved\<close>.
\<close>

theorem add_comment_status_witness:
  "(\<exists>st' r'. add_comment (\<lambda>t. t) (report_example Submitted) \<lparr>p_id = 3, p_role = Faculty\<rparr> 1 ''ok'' 50
               = (Created, st') \<and>
             get_report st' 1 = Some r' \<and> r_status r' = Reviewed) \<and>
   (\<exists>st' r'. add_comment (\<lambda>t. t) (report_example Approved) \<lparr>p_id = 3, p_role = Faculty\<rparr> 1 ''ok'' 50
               = (Created, st') \<and>
             get_report st' 1 = Some r' \<and> r_status r' = Approved)"
proof -
  have a: "get_report (report_example s) 1 =
             Some \<lparr>r_id = 1, r_student = 7, r_createdBy = 2, r_status = s,
                   statusHistory = [], comments = [], r_updatedAt = None\<rparr>" for s
    by (simp add: get_report_def report_example_def)
  have b: "find (\<lambda>x. sp_id x = r_student \<lparr>r_id = 1, r_student = 7, r_createdBy = 2, r_status = s,
                   statusHistory = [], comments = [], r_updatedAt = None\<rparr>) (students (report_example s))
           = Some \<lparr>sp_id = 7, sp_user = 2, sp_rollNumber = None, assignedFaculty = Some 3\<rparr>" for s
    by (simp add: report_example_def)
  have c: "assignedFaculty \<lparr>sp_id = 7, sp_user = 2, sp_rollNumber = None, assignedFaculty = Some 3\<rparr> = Some 3"
    by simp
  have d: "3 = p_id \<lparr>p_id = 3, p_role = Faculty\<rparr> \<or> p_role \<lparr>p_id = 3, p_role = Faculty\<rparr> = Admin"
    by simp
  have e: "p_role \<lparr>p_id = 3, p_role = Faculty\<rparr> \<noteq> Student"
    by simp
  have f: "''ok'' \<noteq> []"
    by simp
  have g: "valid_comment \<lparr>cm_user = p_id \<lparr>p_id = 3, p_role = Faculty\<rparr>,
                           cm_text = trim ((\<lambda>t. t) (trim ''ok'')),
                           cm_createdAt = Some 50, cm_updatedAt = None\<rparr>"
    by (simp add: valid_comment_def trim_def is_space_def)
  from add_comment_status [where escape = "\<lambda>t. t", OF a [of Submitted] b [of Submitted] c d e f g]
       add_comment_status [where escape = "\<lambda>t. t", OF a [of Approved] b [of Approved] c d e f g]
  show ?thesis by simp
qed

text \<open>
  What a status route saves, for either route: the report with the requested status and
  the route's entry pushed. The save is accepted when the entry's comment has at most
  500 characters; the stored report has the requested status, and its history is the old
  history, the route's entry and, when the status changed, the entry of the schema's
  \<open>pre('save')\<close> hook, whose \<open>changedBy\<close> is the report's creator.
\<close>

lemma status_saved:
  assumes found: "get_report st rid = Some r"
    and short: "length c \<le> 500"
  shows "\<exists>st' r'.
           save_report st r
             (r\<lparr>r_status := s', r_updatedAt := Some now,
                statusHistory := statusHistory r @
                  [\<lparr>he_status = s', changedBy = u, changedAt = now, he_comment = Some c\<rparr>]\<rparr>) now
             = Some st' \<and>
           get_report st' rid = Some r' \<and>
           r_status r' = s' \<and>
           statusHistory r' =
             statusHistory r @
               [\<lparr>he_status = s', changedBy = u, changedAt = now, he_comment = Some c\<rparr>] @
               (if s' = r_status r then []
                else [\<lparr>he_status = s', changedBy = r_createdBy r, changedAt = now,
                       he_comment = None\<rparr>])"
proof -
  define h where "h = \<lparr>he_status = s', changedBy = u, changedAt = now, he_comment = Some c\<rparr>"
  define doc where "doc = r\<lparr>r_status := s', r_updatedAt := Some now,
                      statusHistory := statusHistory r @ [h]\<rparr>"
  have rid: "r_id r = rid"
    using found unfolding get_report_def by (rule find_id)
  have hs: "statusHistory doc = statusHistory r @ [h]"
    and cs: "comments doc = comments r"
    and id': "r_id doc = rid"
    and status': "r_status doc = s'"
    and creator: "r_createdBy doc = r_createdBy r"
    using rid by (simp_all add: doc_def)
  have "valid_history_entry h"
    using short by (simp add: valid_history_entry_def h_def)
  then have "validate_report r doc"
    by (simp add: validate_report_def cs hs)
  then obtain st' where saved: "save_report st r doc now = Some st'"
    by (simp add: save_report_def Let_def)
  from save_report_get [OF found id' saved]
  have got: "get_report st' rid = Some (pre_save_comments r (pre_save_status False r doc now) now)" .
  have s1: "r_status (pre_save_comments r (pre_save_status False r doc now) now) = s'"
    by (simp only: r_status_pre_save status')
  have s2: "statusHistory (pre_save_comments r (pre_save_status False r doc now) now)
            = statusHistory r @ [h] @
                (if s' = r_status r then []
                 else [\<lparr>he_status = s', changedBy = r_createdBy r, changedAt = now,
                        he_comment = None\<rparr>])"
    by (simp add: statusHistory_pre_save hs status' creator)
  from saved got s1 s2 show ?thesis
    unfolding h_def doc_def by blast
qed

lemma trainer_update_status_authorized:
  assumes found': "find (\<lambda>r. r_id r = rid) (reports st) = Some r"
    and student: "find (\<lambda>x. sp_id x = r_student r) (students st) = Some s"
    and trainer: "p_role p = Trainer"
    and faculty: "assignedFaculty s = Some (p_id p)"
    and parsed: "trainer_status_of_string status = Some s'"
  shows "trainer_update_status st p rid status cmt now =
          (case save_report st r
                  (r\<lparr>r_status := s', r_updatedAt := Some now,
                      statusHistory := statusHistory r @
                        [\<lparr>he_status = s', changedBy = p_id p, changedAt = now,
                          he_comment = Some (trim (case cmt of None \<Rightarrow> [] | Some t \<Rightarrow> t))\<rparr>]\<rparr>) now of
             None \<Rightarrow> (ServerError, st)
           | Some st' \<Rightarrow> (Success, st'))"
proof -
  have nrole: "(p_role p \<noteq> Trainer) = False" and nauth: "(p_id p \<noteq> p_id p) = False"
    using trainer by simp_all
  show ?thesis
    unfolding trainer_update_status_def
    by (simp only: found' student faculty parsed nrole nauth if_False option.case Let_def)
qed

lemma trainer_status_names:
  "status_of_string status = Some s' \<Longrightarrow>
   trainer_status_of_string status = (if s' = Submitted then None else Some s')"
  by (auto simp: status_of_string_def trainer_status_of_string_def split: if_splits)

text \<open>
  C3, as the two status routes have it. No transition graph is checked. On
  \<open>PATCH /api/reports/:id/status\<close> a request by the student's assigned faculty or an
  admin that names one of \<open>submitted\<close>, \<open>reviewed\<close>, \<open>approved\<close>, \<open>rejected\<close>,
  \<open>needs_revision\<close> (with a history comment of at most 500 characters) is accepted
  whatever the report's current status: the status becomes the requested one, the history
  keeps its old entries, and the entry right after them is the route's entry for the
  request. On \<open>PATCH /api/trainer/reports/:id/status\<close> the same holds for the assigned
  trainer and the last four names, while \<open>submitted\<close> is refused with 400 and the store
  left as it was. The statement is silent on what follows the route's entry in the
  history; lemma \<open>update_status_history\<close> below gives the whole history.
\<close>

theorem update_status_any_transition:
  assumes found: "get_report st rid = Some r"
    and student: "find (\<lambda>x. sp_id x = r_student r) (students st) = Some s"
    and auth: "assignedFaculty s = Some (p_id p) \<or> p_role p = Admin"
    and parsed: "status_of_string status = Some s'"
    and short: "length (trim (case cmt of None \<Rightarrow> [] | Some t \<Rightarrow> t)) \<le> 500"
  shows "(\<exists>st' r'. update_status st p rid status cmt now = (Success, st') \<and>
           get_report st' rid = Some r' \<and>
           r_status r' = s' \<and>
           take (Suc (length (statusHistory r))) (statusHistory r') =
             statusHistory r @
               [\<lparr>he_status = s', changedBy = p_id p, changedAt = now,
                 he_comment = Some (trim (case cmt of None \<Rightarrow> [] | Some t \<Rightarrow> t))\<rparr>]) \<and>
         (p_role p = Trainer \<and> assignedFaculty s = Some (p_id p) \<longrightarrow>
           (if s' = Submitted
            then trainer_update_status st p rid status cmt now = (BadRequest, st)
            else \<exists>st' r'. trainer_update_status st p rid status cmt now = (Success, st') \<and>
                   get_report st' rid = Some r' \<and>
                   r_status r' = s' \<and>
                   take (Suc (length (statusHistory r))) (statusHistory r') =
                     statusHistory r @
                       [\<lparr>he_status = s', changedBy = p_id p, changedAt = now,
                         he_comment = Some (trim (case cmt of None \<Rightarrow> [] | Some t \<Rightarrow> t))\<rparr>]))"
proof (intro conjI impI)
  have found': "find (\<lambda>r. r_id r = rid) (reports st) = Some r"
    using found by (simp add: get_report_def)
  from status_saved [OF found short, where s' = s' and now = now and u = "p_id p"]
  obtain st' r' where saved: "save_report st r
             (r\<lparr>r_status := s', r_updatedAt := Some now,
                statusHistory := statusHistory r @
                  [\<lparr>he_status = s', changedBy = p_id p, changedAt = now,
                    he_comment = Some (trim (case cmt of None \<Rightarrow> [] | Some t \<Rightarrow> t))\<rparr>]\<rparr>) now
             = Some st'"
    and got: "get_report st' rid = Some r'"
    and status': "r_status r' = s'"
    and history: "statusHistory r' =
             statusHistory r @
               [\<lparr>he_status = s', changedBy = p_id p, changedAt = now,
                 he_comment = Some (trim (case cmt of None \<Rightarrow> [] | Some t \<Rightarrow> t))\<rparr>] @
               (if s' = r_status r then []
                else [\<lparr>he_status = s', changedBy = r_createdBy r, changedAt = now,
                       he_comment = None\<rparr>])"
    by blast
  have prefix: "take (Suc (length (statusHistory r))) (statusHistory r') =
             statusHistory r @
               [\<lparr>he_status = s', changedBy = p_id p, changedAt = now,
                 he_comment = Some (trim (case cmt of None \<Rightarrow> [] | Some t \<Rightarrow> t))\<rparr>]"
    by (simp add: history)
  have "update_status st p rid status cmt now = (Success, st')"
    using update_status_authorized [OF found' student auth parsed, of cmt now] saved by simp
  with got status' prefix
  show "\<exists>st' r'. update_status st p rid status cmt now = (Success, st') \<and>
           get_report st' rid = Some r' \<and>
           r_status r' = s' \<and>
           take (Suc (length (statusHistory r))) (statusHistory r') =
             statusHistory r @
               [\<lparr>he_status = s', changedBy = p_id p, changedAt = now,
                 he_comment = Some (trim (case cmt of None \<Rightarrow> [] | Some t \<Rightarrow> t))\<rparr>]"
    by blast
  assume t: "p_role p = Trainer \<and> assignedFaculty s = Some (p_id p)"
  show "if s' = Submitted
        then trainer_update_status st p rid status cmt now = (BadRequest, st)
        else \<exists>st' r'. trainer_update_status st p rid status cmt now = (Success, st') \<and>
               get_report st' rid = Some r' \<and>
               r_status r' = s' \<and>
               take (Suc (length (statusHistory r))) (statusHistory r') =
                 statusHistory r @
                   [\<lparr>he_status = s', changedBy = p_id p, changedAt = now,
                     he_comment = Some (trim (case cmt of None \<Rightarrow> [] | Some t \<Rightarrow> t))\<rparr>]"
  proof (cases "s' = Submitted")
    case True
    then have "trainer_status_of_string status = None"
      using trainer_status_names [OF parsed] by simp
    then have "trainer_update_status st p rid status cmt now = (BadRequest, st)"
      using t by (simp add: trainer_update_status_def)
    with True show ?thesis by simp
  next
    case False
    then have "trainer_status_of_string status = Some s'"
      using trainer_status_names [OF parsed] by simp
    from trainer_update_status_authorized [OF found' student conjunct1 [OF t] conjunct2 [OF t] this, of cmt now]
    have "trainer_update_status st p rid status cmt now = (Success, st')"
      using saved by simp
    with got status' prefix False show ?thesis by auto
  qed
qed

text \<open>
  Trainer 3, the assigned faculty of the student, approves the reviewed report on either
  route: the history of two entries has four afterwards, shown in full for the first
  route. The same trainer sends the report back to \<open>submitted\<close>, against the graph, on
  the first route; the second route refuses the name.
\<close>

theorem update_status_any_transition_witness:
  "(\<exists>st' r'. update_status reviewed_example \<lparr>p_id = 3, p_role = Trainer\<rparr> 1 ''approved'' (Some ''fine'') 50
               = (Success, st') \<and>
             get_report st' 1 = Some r' \<and> r_status r' = Approved \<and>
             take 3 (statusHistory r') =
               [\<lparr>he_status = Submitted, changedBy = 2, changedAt = 10, he_comment = None\<rparr>,
                \<lparr>he_status = Reviewed, changedBy = 2, changedAt = 20, he_comment = None\<rparr>,
                \<lparr>he_status = Approved, changedBy = 3, changedAt = 50, he_comment = Some ''fine''\<rparr>]) \<and>
   (\<exists>st' r'. trainer_update_status reviewed_example \<lparr>p_id = 3, p_role = Trainer\<rparr> 1 ''approved'' (Some ''fine'') 50
               = (Success, st') \<and>
             get_report st' 1 = Some r' \<and> r_status r' = Approved \<and>
             take 3 (statusHistory r') =
               [\<lparr>he_status = Submitted, changedBy = 2, changedAt = 10, he_comment = None\<rparr>,
                \<lparr>he_status = Reviewed, changedBy = 2, changedAt = 20, he_comment = None\<rparr>,
                \<lparr>he_status = Approved, changedBy = 3, changedAt = 50, he_comment = Some ''fine''\<rparr>]) \<and>
   map statusHistory
     (reports (snd (update_status reviewed_example \<lparr>p_id = 3, p_role = Trainer\<rparr> 1 ''approved''
                      (Some ''fine'') 50))) =
     [[\<lparr>he_status = Submitted, changedBy = 2, changedAt = 10, he_comment = None\<rparr>,
       \<lparr>he_status = Reviewed, changedBy = 2, changedAt = 20, he_comment = None\<rparr>,
       \<lparr>he_status = Approved, changedBy = 3, changedAt = 50, he_comment = Some ''fine''\<rparr>,
       \<lparr>he_status = Approved, changedBy = 2, changedAt = 50, he_comment = None\<rparr>]] \<and>
   update_status reviewed_example \<lparr>p_id = 3, p_role = Trainer\<rparr> 1 ''submitted'' None 50
     \<noteq> (BadRequest, reviewed_example) \<and>
   trainer_update_status reviewed_example \<lparr>p_id = 3, p_role = Trainer\<rparr> 1 ''submitted'' None 50
     = (BadRequest, reviewed_example)"
proof -
  let ?r = "\<lparr>r_id = 1, r_student = 7, r_createdBy = 2, r_status = Reviewed,
             statusHistory =
               [\<lparr>he_status = Submitted, changedBy = 2, changedAt = 10, he_comment = None\<rparr>,
                \<lparr>he_status = Reviewed, changedBy = 2, changedAt = 20, he_comment = None\<rparr>],
             comments = [], r_updatedAt = Some 20\<rparr>"
  let ?s = "\<lparr>sp_id = 7, sp_user = 2, sp_rollNumber = None, assignedFaculty = Some 3\<rparr>"
  let ?p = "\<lparr>p_id = 3, p_role = Trainer\<rparr>"
  have a: "get_report reviewed_example 1 = Some ?r"
    by (simp add: get_report_def reviewed_example_def)
  have b: "find (\<lambda>x. sp_id x = r_student ?r) (students reviewed_example) = Some ?s"
    by (simp add: reviewed_example_def report_example_def)
  have c: "assignedFaculty ?s = Some (p_id ?p) \<or> p_role ?p = Admin"
    by simp
  have d: "status_of_string ''approved'' = Some Approved"
    and d': "status_of_string ''submitted'' = Some Submitted"
    by (simp_all add: status_of_string_def)
  have t: "trim ''fine'' = ''fine''" and t': "trim [] = []"
    by (simp_all add: trim_def is_space_def)
  have e: "length (trim (case Some ''fine'' of None \<Rightarrow> [] | Some t \<Rightarrow> t)) \<le> 500"
    and e': "length (trim (case None of None \<Rightarrow> [] | Some t \<Rightarrow> t)) \<le> 500"
    by (simp_all add: t t')
  have whole: "map statusHistory
     (reports (snd (update_status reviewed_example ?p 1 ''approved'' (Some ''fine'') 50))) =
     [[\<lparr>he_status = Submitted, changedBy = 2, changedAt = 10, he_comment = None\<rparr>,
       \<lparr>he_status = Reviewed, changedBy = 2, changedAt = 20, he_comment = None\<rparr>,
       \<lparr>he_status = Approved, changedBy = 3, changedAt = 50, he_comment = Some ''fine''\<rparr>,
       \<lparr>he_status = Approved, changedBy = 2, changedAt = 50, he_comment = None\<rparr>]]"
    by code_simp
  have accepted: "update_status reviewed_example ?p 1 ''submitted'' None 50
                    \<noteq> (BadRequest, reviewed_example)"
    by code_simp
  from update_status_any_transition [OF a b c d e, of 50]
       update_status_any_transition [OF a b c d' e', of 50] whole accepted
  show ?thesis by (simp add: t t' numeral_3_eq_3)
qed

text \<open>
  The claim as written fails: an admin sets a draft report to \<open>approved\<close> in one request.
  The request is accepted, the stored status is \<open>approved\<close>, and the history, empty
  before, holds two entries after it (the route's and the save hook's). The same request
  on a report that is \<open>submitted\<close>, the status every report is created with, skips
  \<open>reviewed\<close> in the same way.
\<close>

theorem draft_to_approved_accepted:
  "fst (update_status (report_example Draft) \<lparr>p_id = 9, p_role = Admin\<rparr> 1 ''approved'' None 50) = Success \<and>
   map r_status (reports (snd (update_status (report_example Draft) \<lparr>p_id = 9, p_role = Admin\<rparr> 1
                                 ''approved'' None 50))) = [Approved] \<and>
   map (\<lambda>r. length (statusHistory r))
       (reports (snd (update_status (report_example Draft) \<lparr>p_id = 9, p_role = Admin\<rparr> 1
                         ''approved'' None 50))) = [2] \<and>
   fst (update_status (report_example Submitted) \<lparr>p_id = 9, p_role = Admin\<rparr> 1 ''approved'' None 50) = Success \<and>
   map r_status (reports (snd (update_status (report_example Submitted) \<lparr>p_id = 9, p_role = Admin\<rparr> 1
                                 ''approved'' None 50))) = [Approved]"
  by (simp add: update_status_def status_of_string_def save_report_def validate_report_def
      valid_history_entry_def trim_def Let_def report_example_def pre_save_status_def
      pre_save_comments_def)

text \<open>
  The whole history after an accepted status update, on either route: the old entries,
  the route's entry and, when the requested status differs from the current one, a
  second entry for the same change, pushed by the schema's \<open>pre('save')\<close> hook with the
  report's creator as \<open>changedBy\<close> and no comment. A request that changes the status
  therefore adds two entries, and one that repeats the current status adds one. The
  hook's own comment, \<open>This will be updated in the route if needed\<close>, shows that a single
  entry was meant.
\<close>

lemma update_status_history:
  assumes found: "get_report st rid = Some r"
    and student: "find (\<lambda>x. sp_id x = r_student r) (students st) = Some s"
    and auth: "assignedFaculty s = Some (p_id p) \<or> p_role p = Admin"
    and parsed: "status_of_string status = Some s'"
    and short: "length (trim (case cmt of None \<Rightarrow> [] | Some t \<Rightarrow> t)) \<le> 500"
  shows "\<exists>st' r'. update_status st p rid status cmt now = (Success, st') \<and>
           get_report st' rid = Some r' \<and>
           statusHistory r' =
             statusHistory r @
               [\<lparr>he_status = s', changedBy = p_id p, changedAt = now,
                 he_comment = Some (trim (case cmt of None \<Rightarrow> [] | Some t \<Rightarrow> t))\<rparr>] @
               (if s' = r_status r then []
                else [\<lparr>he_status = s', changedBy = r_createdBy r, changedAt = now,
                       he_comment = None\<rparr>])"
proof -
  have found': "find (\<lambda>r. r_id r = rid) (reports st) = Some r"
    using found by (simp add: get_report_def)
  from status_saved [OF found short, where s' = s' and now = now and u = "p_id p"]
       update_status_authorized [OF found' student auth parsed, of cmt now]
  show ?thesis by auto
qed

lemma trainer_update_status_history:
  assumes found: "get_report st rid = Some r"
    and student: "find (\<lambda>x. sp_id x = r_student r) (students st) = Some s"
    and trainer: "p_role p = Trainer"
    and faculty: "assignedFaculty s = Some (p_id p)"
    and parsed: "trainer_status_of_string status = Some s'"
    and short: "length (trim (case cmt of None \<Rightarrow> [] | Some t \<Rightarrow> t)) \<le> 500"
  shows "\<exists>st' r'. trainer_update_status st p rid status cmt now = (Success, st') \<and>
           get_report st' rid = Some r' \<and>
           statusHistory r' =
             statusHistory r @
               [\<lparr>he_status = s', changedBy = p_id p, changedAt = now,
                 he_comment = Some (trim (case cmt of None \<Rightarrow> [] | Some t \<Rightarrow> t))\<rparr>] @
               (if s' = r_status r then []
                else [\<lparr>he_status = s', changedBy = r_createdBy r, changedAt = now,
                       he_comment = None\<rparr>])"
proof -
  have found': "find (\<lambda>r. r_id r = rid) (reports st) = Some r"
    using found by (simp add: get_report_def)
  from status_saved [OF found short, where s' = s' and now = now and u = "p_id p"]
       trainer_update_status_authorized [OF found' student trainer faculty parsed, of cmt now]
  show ?thesis by auto
qed

subsection \<open>Batches\<close>



subsection \<open>The admin user listing\<close>

lemma role_name_superadmin: "role_name r = ''superadmin'' \<longleftrightarrow> r = Superadmin"
  by (cases r) (simp_all add: role_name_def)

lemma build_filter_role:
  "build_filter regexp q = Some f \<Longrightarrow>
   f_role f = (if truthy (q_role q) then Role_eq (the (q_role q)) else Role_ne ''superadmin'')"
  by (auto simp: build_filter_def truthy_def Let_def split: option.splits if_splits)

lemma page_subset:
  "set (take n (drop k (rev (sort_key f (filter P xs))))) \<subseteq> {x. P x}"
proof -
  have "set (take n (drop k (rev (sort_key f (filter P xs))))) \<subseteq> set (rev (sort_key f (filter P xs)))"
    by (meson set_take_subset set_drop_subset subset_trans)
  then show ?thesis by auto
qed

lemma list_users_page:
  assumes "list_users regexp st p q = Inr pg"
  shows "\<exists>f. build_filter regexp q = Some f \<and> set (pg_users pg) \<subseteq> {u. matches f u}"
proof -
  from assms obtain f where f: "build_filter regexp q = Some f"
    by (auto simp: list_users_def Let_def split: if_splits option.splits)
  with assms have "pg_users pg = take (or_default (q_limit q) 20)
      (drop ((or_default (q_page q) 1 - 1) * or_default (q_limit q) 20)
        (rev (sort_key createdAt (filter (matches f) (users st)))))"
    by (auto simp: list_users_def Let_def split: if_splits)
  with f page_subset show ?thesis by metis
qed

text \<open>
  C10. For an admin caller: without a \<open>role\<close> parameter no listed user is a super-admin;
  with one, the listed users are exactly of the named role, the default exclusion being
  overwritten; and for \<open>role=superadmin\<close> alone the reply is the first page of the
  super-admin accounts.
\<close>

theorem list_users_role_filter:
  assumes admin: "p_role p = Admin"
  shows "(\<not> truthy (q_role q) \<longrightarrow>
            (\<forall>pg. list_users regexp st p q = Inr pg \<longrightarrow>
                  list_all (\<lambda>u. u_role u \<noteq> Superadmin) (pg_users pg))) \<and>
         (truthy (q_role q) \<longrightarrow>
            (\<forall>pg. list_users regexp st p q = Inr pg \<longrightarrow>
                  list_all (\<lambda>u. Some (role_name (u_role u)) = q_role q) (pg_users pg))) \<and>
         list_users regexp st p (role_only (Some ''superadmin'')) =
           Inr \<lparr>pg_users = take 20 (rev (sort_key createdAt (filter (\<lambda>u. u_role u = Superadmin) (users st)))),
                pg_total = length (filter (\<lambda>u. u_role u = Superadmin) (users st)),
                pg_page = 1,
                pg_pages = \<lceil>rat_of_nat (length (filter (\<lambda>u. u_role u = Superadmin) (users st))) / 20\<rceil>,
                pg_limit = 20\<rparr>"
proof (intro conjI impI allI)
  fix pg
  assume nr: "\<not> truthy (q_role q)" and res: "list_users regexp st p q = Inr pg"
  from list_users_page [OF res] obtain f where
    f: "build_filter regexp q = Some f" and sub: "set (pg_users pg) \<subseteq> {u. matches f u}"
    by blast
  from build_filter_role [OF f] nr have "f_role f = Role_ne ''superadmin''"
    by simp
  then have "matches f u \<Longrightarrow> u_role u \<noteq> Superadmin" for u
    by (auto simp: matches_def role_name_def)
  with sub show "list_all (\<lambda>u. u_role u \<noteq> Superadmin) (pg_users pg)"
    by (auto simp: list_all_iff)
next
  fix pg
  assume r: "truthy (q_role q)" and res: "list_users regexp st p q = Inr pg"
  from list_users_page [OF res] obtain f where
    f: "build_filter regexp q = Some f" and sub: "set (pg_users pg) \<subseteq> {u. matches f u}"
    by blast
  from r obtain rn where rn: "q_role q = Some rn"
    by (auto simp: truthy_def split: option.splits)
  from build_filter_role [OF f] r rn have "f_role f = Role_eq rn"
    by simp
  then have "matches f u \<Longrightarrow> role_name (u_role u) = rn" for u
    by (simp add: matches_def)
  with sub rn show "list_all (\<lambda>u. Some (role_name (u_role u)) = q_role q) (pg_users pg)"
    by (auto simp: list_all_iff)
next
  have m: "matches \<lparr>f_role = Role_eq ''superadmin'', f_isActive = None, f_or = None\<rparr>
             = (\<lambda>u. u_role u = Superadmin)"
    by (rule ext) (simp add: matches_def role_name_superadmin)
  show "list_users regexp st p (role_only (Some ''superadmin'')) =
           Inr \<lparr>pg_users = take 20 (rev (sort_key createdAt (filter (\<lambda>u. u_role u = Superadmin) (users st)))),
                pg_total = length (filter (\<lambda>u. u_role u = Superadmin) (users st)),
                pg_page = 1,
                pg_pages = \<lceil>rat_of_nat (length (filter (\<lambda>u. u_role u = Superadmin) (users st))) / 20\<rceil>,
                pg_limit = 20\<rparr>"
    using admin
    by (simp add: list_users_def role_only_def build_filter_def or_default_def Let_def m)
qed


text \<open>
  The admin 2 lists with \<open>role=superadmin\<close> and receives the super-admin 1; without the
  parameter the reply holds the student and the admin, newest first.
\<close>

theorem list_users_role_filter_witness:
  "p_role \<lparr>p_id = 2, p_role = Admin\<rparr> = Admin \<and>
   map u_id (pg_users (projr (list_users (\<lambda>_. None) listing_example \<lparr>p_id = 2, p_role = Admin\<rparr>
                                (role_only (Some ''superadmin''))))) = [1] \<and>
   map u_id (pg_users (projr (list_users (\<lambda>_. None) listing_example \<lparr>p_id = 2, p_role = Admin\<rparr>
                                (role_only None)))) = [3, 2]"
proof -
  have a: "p_role \<lparr>p_id = 2, p_role = Admin\<rparr> = Admin"
    by simp
  have b: "list_users (\<lambda>_. None) listing_example \<lparr>p_id = 2, p_role = Admin\<rparr> (role_only None) =
             Inr \<lparr>pg_users = [users listing_example ! 2, users listing_example ! 1],
                  pg_total = 2, pg_page = 1, pg_pages = 1, pg_limit = 20\<rparr>"
    by (simp add: list_users_def role_only_def build_filter_def or_default_def Let_def
        matches_def role_name_def listing_example_def ceiling_eq_iff)
  from list_users_role_filter [OF a, of "role_only None" "\<lambda>_. None" listing_example]
       list_users_role_filter [OF a, of "role_only (Some ''superadmin'')" "\<lambda>_. None" listing_example] b
  show ?thesis
    by (simp add: listing_example_def)
qed

subsection \<open>Username generation\<close>

lemma username_loop_unique:
  "username_loop taken fname lname rnd uname True a = (uname, True, a)"
  by (simp add: username_loop.simps)

lemma username_loop_done:
  "username_loop taken fname lname rnd uname b maxAttempts = (uname, b, maxAttempts)"
  by (simp add: username_loop.simps)

lemma username_loop_find:
  "a \<le> maxAttempts \<Longrightarrow>
   username_loop taken fname lname rnd uname False a =
     (case find (\<lambda>k. \<not> taken (generated_username fname lname (rnd k))) [a..<maxAttempts] of
        Some k \<Rightarrow> (Some (generated_username fname lname (rnd k)), True, Suc k)
      | None \<Rightarrow> (if a < maxAttempts
                 then Some (generated_username fname lname (rnd (maxAttempts - 1))) else uname,
                 False, maxAttempts))"
proof (induction "maxAttempts - a" arbitrary: a uname)
  case 0
  then have "a = maxAttempts" by simp
  then show ?case by (simp add: username_loop_done)
next
  case (Suc n)
  then have lt: "a < maxAttempts" by simp
  let ?u = "generated_username fname lname (rnd a)"
  have step: "username_loop taken fname lname rnd uname False a =
              username_loop taken fname lname rnd (Some ?u) (\<not> taken ?u) (a + 1)"
    using lt by (subst username_loop.simps) (simp add: Let_def)
  have upt: "[a..<maxAttempts] = a # [Suc a..<maxAttempts]"
    using lt by (simp add: upt_conv_Cons)
  show ?case
  proof (cases "taken ?u")
    case False
    then show ?thesis
      by (simp add: step upt username_loop_unique)
  next
    case True
    have "n = maxAttempts - Suc a" using Suc.hyps(2) by simp
    moreover have "Suc a \<le> maxAttempts" using lt by simp
    ultimately have ih: "username_loop taken fname lname rnd (Some ?u) False (Suc a) =
     (case find (\<lambda>k. \<not> taken (generated_username fname lname (rnd k))) [Suc a..<maxAttempts] of
        Some k \<Rightarrow> (Some (generated_username fname lname (rnd k)), True, Suc k)
      | None \<Rightarrow> (if Suc a < maxAttempts
                 then Some (generated_username fname lname (rnd (maxAttempts - 1))) else Some ?u,
                 False, maxAttempts))"
      by (rule Suc.hyps(1))
    have last: "\<not> Suc a < maxAttempts \<Longrightarrow> a = maxAttempts - 1"
      using lt by simp
    show ?thesis
      using True lt last by (auto simp: step upt ih split: option.splits)
  qed
qed

lemma username_loop_from_start:
  "username_loop (username_taken st) fname lname rnd None False 0 =
     (case find (\<lambda>k. \<not> username_taken st (generated_username fname lname (rnd k))) [0..<5] of
        Some k \<Rightarrow> (Some (generated_username fname lname (rnd k)), True, Suc k)
      | None \<Rightarrow> (Some (generated_username fname lname (rnd 4)), False, 5))"
proof -
  have m: "maxAttempts = 5" by (simp add: maxAttempts_def)
  have "0 \<le> maxAttempts" by simp
  from username_loop_find [OF this, of "username_taken st" fname lname rnd None, unfolded m]
  show ?thesis by (simp split: option.splits)
qed

lemma generateUniqueUsername_find:
  "generateUniqueUsername st fname lname rnd uuid =
     (case find (\<lambda>k. \<not> username_taken st (generated_username fname lname (rnd k))) [0..<5] of
        Some k \<Rightarrow> generated_username fname lname (rnd k)
      | None \<Rightarrow> ''user_'' @ take 8 uuid)"
  unfolding generateUniqueUsername_def username_loop_from_start
  by (simp split: option.splits)

lemma create_user_username_find:
  "create_user_username st fname lname rnd =
     (case find (\<lambda>k. \<not> username_taken st (generated_username fname lname (rnd k))) [0..<5] of
        Some k \<Rightarrow> Inr (generated_username fname lname (rnd k))
      | None \<Rightarrow> Inl ServerError)"
  unfolding create_user_username_def username_loop_from_start
  by (simp split: option.splits)

lemma username_loop_attempts:
  "snd (snd (username_loop (username_taken st) fname lname rnd None False 0)) \<le> 5"
proof -
  have bound: "find P [0..<5] = Some k \<Longrightarrow> Suc k \<le> 5" for P and k :: nat
    by (auto simp: find_Some_iff)
  show ?thesis
    unfolding username_loop_from_start
    by (auto split: option.splits dest: bound)
qed

text \<open>
  C6, as the code has it. Both loops try at most five candidates, one store lookup each,
  and stop at the first that no user has. When all five are taken, the helper
  \<open>generateUniqueUsername\<close> returns \<open>user_\<close> followed by eight characters of a UUID,
  whereas the username step of \<open>POST /api/admin/users\<close> answers 500.
\<close>

theorem username_generation:
  "generateUniqueUsername st fname lname rnd uuid =
     (case find (\<lambda>k. \<not> username_taken st (generated_username fname lname (rnd k))) [0..<5] of
        Some k \<Rightarrow> generated_username fname lname (rnd k)
      | None \<Rightarrow> ''user_'' @ take 8 uuid) \<and>
   create_user_username st fname lname rnd =
     (case find (\<lambda>k. \<not> username_taken st (generated_username fname lname (rnd k))) [0..<5] of
        Some k \<Rightarrow> Inr (generated_username fname lname (rnd k))
      | None \<Rightarrow> Inl ServerError) \<and>
   snd (snd (username_loop (username_taken st) fname lname rnd None False 0)) \<le> 5"
  using generateUniqueUsername_find create_user_username_find username_loop_attempts
  by (intro conjI)

lemma alb100: "generated_username ''Al'' ''Bo'' 0 = ''alb100''"
  by code_simp

lemma alb550: "generated_username ''Al'' ''Bo'' (1 / 2) = ''alb550''"
  by code_simp

text \<open>
  The suffix is computed on doubles too: for this draw the product with 900 is rounded
  up to 23, where the exact product is below it.
\<close>

lemma random_suffix_double:
  "random_suffix (115091990477246 / 2 ^ 52) = Num 123 \<and>
   (115091990477246 / 2 ^ 52 * 900 :: rat) < 23"
  by code_simp

lemma taken_alb: "username_taken taken_example n \<longleftrightarrow> n = ''alb100''"
  by (auto simp: username_taken_def taken_example_def)

text \<open>
  The claim as written fails for the route: Al Bo is provisioned while \<open>alb100\<close> exists
  and every draw of \<open>Math.random()\<close> is 0, so all five candidates are \<open>alb100\<close>; the
  request fails with 500 instead of falling back.
\<close>

theorem all_attempts_collide:
  "create_user_username taken_example ''Al'' ''Bo'' (\<lambda>k. 0) = Inl ServerError"
proof -
  have "find (\<lambda>k::nat. False) [0..<5] = None"
    by (simp add: find_None_iff)
  then show ?thesis
    by (simp add: create_user_username_find alb100 taken_alb)
qed

text \<open>
  With draws 0, 0, 1/2 the third candidate \<open>alb550\<close> is free and both loops return it;
  with every draw 0 the helper falls back to the UUID prefix.
\<close>

theorem username_generation_witness:
  "generateUniqueUsername taken_example ''Al'' ''Bo'' (\<lambda>k. if k < 2 then 0 else 1 / 2) ''0f8fad5b-d9cb'' = ''alb550'' \<and>
   generateUniqueUsername taken_example ''Al'' ''Bo'' (\<lambda>k. 0) ''0f8fad5b-d9cb'' = ''user_0f8fad5b'' \<and>
   create_user_username taken_example ''Al'' ''Bo'' (\<lambda>k. if k < 2 then 0 else 1 / 2) = Inr ''alb550''"
proof -
  have u: "[0..<5] = [0, 1, 2, 3, 4]"
    by (simp add: upt_rec)
  from username_generation [of taken_example "''Al''" "''Bo''" "\<lambda>k. if k < 2 then 0 else 1 / 2" "''0f8fad5b-d9cb''"]
       username_generation [of taken_example "''Al''" "''Bo''" "\<lambda>k. 0" "''0f8fad5b-d9cb''"]
  show ?thesis
    by (simp add: u alb100 alb550 taken_alb)
qed

subsection \<open>Percentages\<close>

lemma totalAttendance_sum: "foldl (\<lambda>sum item. sum + sc_count item) a summary = a + sum_list (map sc_count summary)"
  by (induction summary arbitrary: a) simp_all

lemma attendancePercentage_zero_total:
  "totalAttendance summary = 0 \<Longrightarrow> attendancePercentage summary = Num 0"
  by (simp add: attendancePercentage_def)

lemma attendance_histogram_zero_total:
  assumes "totalAttendance summary = 0"
  shows "list_all (\<lambda>(status, n, percentage). percentage = Num 0) (attendance_histogram summary)"
proof -
  from assms have "sum_list (map sc_count summary) = 0"
    by (simp add: totalAttendance_def totalAttendance_sum)
  then have "sc_count item = 0" if "item \<in> set summary" for item
    using that by auto
  with assms show ?thesis
    by (simp add: attendance_histogram_def list_all_iff)
qed

lemma student_attendancePercentage_zero: "student_attendancePercentage 0 present = Num 0"
  by (simp add: student_attendancePercentage_def)

text \<open>
  The percentages are computed on doubles: 23 records out of 40 give
  57.49999999999999 before \<open>Math.round\<close>, so 57, where the exact quotient gives 57.5.
\<close>

lemma attendancePercentage_double:
  "attendancePercentage [\<lparr>sc_status = Present, sc_count = 23\<rparr>, \<lparr>sc_status = Absent, sc_count = 17\<rparr>]
     = Num 57"
  by code_simp

lemma batchProgress_no_students: "batchProgress [] = Num 0"
  by (simp add: batchProgress_def)

lemma completionRate_no_students: "completionRate n [] = (if 0 < n then NaN else Num 0)"
  by (simp add: completionRate_def)

text \<open>
  C4 fails on the batch overview. Batch CS24 has one course and nobody enrolled:
  \<open>totalStudents\<close> is 0, \<open>totalCourses\<close> is 1, the guard \<open>totalCourses > 0\<close> lets the
  division by \<open>totalStudents\<close> through, and \<open>completionRate\<close> is \<open>NaN\<close>.
\<close>

theorem completion_rate_nan:
  "map_sum id (\<lambda>v. (ov_totalStudents v, ov_totalCourses v, ov_completionRate v))
     (batch_overview campus_unenrolled tia 1) = Inr (0, 1, NaN)"
  by code_simp

subsection \<open>Trainer access\<close>

lemma unassigned_batch:
  "bid \<notin> set (assigned_batches st uid) \<Longrightarrow>
   find (\<lambda>b. b_id b = bid \<and> uid \<in> set (trainers b)) (batches st) = None"
  by (auto simp: find_None_iff assigned_batches_def)

lemma unassigned_course:
  "cid \<notin> set (assigned_courses st uid) \<Longrightarrow>
   find (\<lambda>c. c_id c = cid \<and> instructor c = Some uid) (courses st) = None"
  by (auto simp: find_None_iff assigned_courses_def)

text \<open>
  C5, as the five routes of the trainer dashboard router have it. A trainer's request for
  a batch or a course outside the trainer's assigned set is refused on each of them, but
  the answer depends on the route: the batch overview and the course's assignment list
  answer 404, the dashboard's batch filter answers 403; for an assignment whose course
  has another instructor, the submission list and the feedback both answer 403, and the
  feedback leaves the store as it was. The statement is about these five routes only.
\<close>

theorem trainer_unassigned_denied:
  assumes trainer: "p_role p = Trainer"
  shows "(bid \<notin> set (assigned_batches st (p_id p)) \<longrightarrow>
            batch_overview st p bid = Inl NotFound \<and>
            trainer_dashboard st p (Some bid) now = Inl Forbidden) \<and>
         (cid \<notin> set (assigned_courses st (p_id p)) \<longrightarrow>
            course_assignments st p cid = Inl NotFound) \<and>
         (\<forall>a i. find (\<lambda>a. a_id a = aid) (assignments st) = Some a \<and>
                 instructor_of st (Some a) = Some i \<and> i \<noteq> p_id p \<longrightarrow>
                 assignment_submissions st p aid = Inl Forbidden) \<and>
         (\<forall>a i. find (\<lambda>a. sid \<in> set (map sub_id (submissions a))) (assignments st) = Some a \<and>
                 instructor_of st (Some a) = Some i \<and> i \<noteq> p_id p \<and> g \<noteq> None \<and> fb \<noteq> [] \<longrightarrow>
                 submission_feedback st p sid g fb = (Forbidden, st))"
proof (intro conjI impI allI)
  assume "bid \<notin> set (assigned_batches st (p_id p))"
  then have none: "find (\<lambda>b. b_id b = bid \<and> p_id p \<in> set (trainers b)) (batches st) = None"
    by (rule unassigned_batch)
  show "batch_overview st p bid = Inl NotFound"
    using trainer by (simp add: batch_overview_def none)
  show "trainer_dashboard st p (Some bid) now = Inl Forbidden"
    using trainer by (simp add: trainer_dashboard_def none)
next
  assume "cid \<notin> set (assigned_courses st (p_id p))"
  then have "find (\<lambda>c. c_id c = cid \<and> instructor c = Some (p_id p)) (courses st) = None"
    by (rule unassigned_course)
  then show "course_assignments st p cid = Inl NotFound"
    using trainer by (simp add: course_assignments_def)
next
  fix a i
  assume "find (\<lambda>a. a_id a = aid) (assignments st) = Some a \<and>
          instructor_of st (Some a) = Some i \<and> i \<noteq> p_id p"
  then show "assignment_submissions st p aid = Inl Forbidden"
    using trainer by (simp add: assignment_submissions_def)
next
  fix a i
  assume "find (\<lambda>a. sid \<in> set (map sub_id (submissions a))) (assignments st) = Some a \<and>
          instructor_of st (Some a) = Some i \<and> i \<noteq> p_id p \<and> g \<noteq> None \<and> fb \<noteq> []"
  then show "submission_feedback st p sid g fb = (Forbidden, st)"
    using trainer by (simp add: submission_feedback_def)
qed

text \<open>
  Trainer 6 is not a trainer of batch 1 and not the instructor of course 10, where
  assignment 100 with submission 1000 belongs.
\<close>

theorem trainer_unassigned_denied_witness:
  "p_role tom = Trainer \<and> 1 \<notin> set (assigned_batches campus (p_id tom)) \<and>
   10 \<notin> set (assigned_courses campus (p_id tom)) \<and>
   batch_overview campus tom 1 = Inl NotFound \<and>
   trainer_dashboard campus tom (Some 1) 0 = Inl Forbidden \<and>
   course_assignments campus tom 10 = Inl NotFound \<and>
   assignment_submissions campus tom 100 = Inl Forbidden \<and>
   submission_feedback campus tom 1000 (Some 9) ''good'' = (Forbidden, campus)"
proof -
  have t: "p_role tom = Trainer"
    by (simp add: tom_def)
  have b: "1 \<notin> set (assigned_batches campus (p_id tom))"
    by (simp add: assigned_batches_def campus_def cs24_def tom_def)
  have c: "10 \<notin> set (assigned_courses campus (p_id tom))"
    by (simp add: assigned_courses_def campus_def tom_def)
  have a: "find (\<lambda>a. a_id a = 100) (assignments campus) = Some (hd (assignments campus))"
    by (simp add: campus_def)
  have a': "find (\<lambda>a. 1000 \<in> set (map sub_id (submissions a))) (assignments campus)
              = Some (hd (assignments campus))"
    by (simp add: campus_def)
  have i: "instructor_of campus (Some (hd (assignments campus))) = Some 5"
    by (simp add: instructor_of_def campus_def)
  have n: "(5::nat) \<noteq> p_id tom"
    by (simp add: tom_def)
  from trainer_unassigned_denied [OF t, of 1 campus 0 10 100 1000 "Some 9" "''good''"] b c a a' i n
  show ?thesis
    by (simp add: t)
qed

text \<open>
  The claim as written fails: for trainer 6 the overview of batch 1, which exists, is
  answered with 404, not with 403, and so is the assignment list of course 10.
\<close>

theorem unassigned_batch_not_found:
  "p_role tom = Trainer \<and> 1 \<notin> set (assigned_batches campus (p_id tom)) \<and>
   map b_id (batches campus) = [1] \<and>
   batch_overview campus tom 1 = Inl NotFound \<and> batch_overview campus tom 1 \<noteq> Inl Forbidden \<and>
   10 \<notin> set (assigned_courses campus (p_id tom)) \<and>
   course_assignments campus tom 10 = Inl NotFound"
  by code_simp

text \<open>
  The upload route for assignment resources is no part of the statement above: it checks
  the caller's role and nothing else. Trainer 6, who does not teach course 10, uploads
  notes to its assignment 100; the answer is 201 and the assignment holds the two
  resources that the two blocks of the handler pushed.
\<close>

lemma upload_by_any_trainer:
  "10 \<notin> set (assigned_courses campus (p_id tom)) \<and>
   map a_course (assignments campus) = [10] \<and>
   fst (upload_resource campus tom 100 ''notes'' (Some ''17.pdf'')) = Created \<and>
   map resources (assignments campus) = [[]] \<and>
   map resources (assignments (snd (upload_resource campus tom 100 ''notes'' (Some ''17.pdf'')))) =
     [[\<lparr>res_type = ''notes'', fileUrl = In_assignment_folder 100 ''17.pdf'', uploadedBy = 6\<rparr>,
       \<lparr>res_type = ''notes'', fileUrl = In_uploads ''17.pdf'', uploadedBy = 6\<rparr>]]"
  by code_simp

lemma upload_role_only:
  assumes trainer: "p_role p = Trainer"
    and found: "find (\<lambda>a. a_id a = aid) (assignments st) = Some a"
    and allowed: "t \<in> set [''notes'', ''ppt'']" "t \<in> set (trainerResources a)"
  shows "fst (upload_resource st p aid t (Some filename)) = Created"
  using trainer allowed by (simp add: upload_resource_def found Let_def)

subsection \<open>Trainer dashboard\<close>

lemma first_match_unfiltered:
  "first_match False courseIds uid (map (\<lambda>a. (a, Course_ref (a_course a))) xs) = []"
  by (induction xs) (simp_all add: first_match_def)

lemma recent_submissions_unfiltered: "recent_submissions st False courseIds uid = []"
  by (simp add: recent_submissions_def first_match_unfiltered lookup_course_def
      unwind_submissions_def lookup_student_def)

lemma dashboard_unfiltered_submissions:
  "trainer_dashboard st p None now = Inr d \<Longrightarrow> recentSubmissions d = []"
  by (auto simp: trainer_dashboard_def Let_def recent_submissions_unfiltered split: if_splits)

lemma upcoming_at_most_five:
  "trainer_dashboard st p bid now = Inr d \<Longrightarrow>
   length (upcomingAssignments d) \<le> 5 \<and> sorted (map dueDate (upcomingAssignments d))"
  by (auto simp: trainer_dashboard_def Let_def take_map [symmetric] split: if_splits)

text \<open>
  With a batch filter the dashboard needs every enrolled student of the listed courses
  to be populated. After student 3 was deleted through the admin route, the enrolment in
  course 10 names a user that no longer exists, and the dashboard of batch 1 answers 500
  for the course's trainer; without the filter it still answers.
\<close>

lemma dashboard_null_student:
  "trainer_dashboard campus tia (Some 1) 0 \<noteq> Inl ServerError \<and>
   map_sum id batchStats (trainer_dashboard campus tia (Some 1) 3000) = Inr (Some (1, 1, 0)) \<and>
   trainer_dashboard (snd (admin_delete_user campus root (Canonical 3))) tia (Some 1) 0
     = Inl ServerError \<and>
   map_sum id batchStats (trainer_dashboard (snd (admin_delete_user campus root (Canonical 3))) tia None 0)
     = Inr None"
  by code_simp

text \<open>
  C7 fails without a batch filter. Trainer 5 teaches course 10, whose assignment 100 has
  a submission of student 3. With \<open>batchId = 1\<close> the dashboard lists that submission;
  without \<open>batchId\<close> the list is empty, because the first stage matches
  \<open>course.instructor\<close> while \<open>course\<close> is still an ObjectId.
\<close>

theorem no_filter_no_submissions:
  "map_sum id recentSubmissions (trainer_dashboard campus tia None 0) = Inr [] \<and>
   map_sum id (\<lambda>d. map row_studentId (recentSubmissions d)) (trainer_dashboard campus tia (Some 1) 0)
     = Inr [3]"
  by code_simp

subsection \<open>User deletion\<close>

text \<open>
  Both \<open>/users/:userId\<close> routes refuse the caller's own id in its canonical spelling,
  for every role, and leave the store as it was.
\<close>

lemma admin_delete_self:
  "admin_delete_user st p (Canonical (p_id p)) =
     (if p_role p = Superadmin then BadRequest else Forbidden, st)"
  by (simp add: admin_delete_user_def)

lemma superadmin_delete_self:
  "superadmin_delete_user st p (Canonical (p_id p)) =
     (if p_role p = Superadmin then BadRequest else Forbidden, st)"
  by (simp add: superadmin_delete_user_def)

text \<open>
  The guard compares strings. With another spelling of the caller's own id the first
  route still refuses, because the caller is a super-admin and no super-admin can be
  deleted there; the second route has no such check and deletes the caller's account.
\<close>

lemma admin_delete_self_other_spelling:
  assumes super: "p_role p = Superadmin"
    and found: "find (\<lambda>u. u_id u = p_id p) (users st) = Some u"
    and same: "u_role u = Superadmin"
  shows "admin_delete_user st p (Other_spelling (p_id p)) = (Forbidden, st)"
  using super same by (simp add: admin_delete_user_def found)

lemma superadmin_delete_self_other_spelling:
  "superadmin_delete_user campus root (Other_spelling (p_id root)) =
     (Success, campus\<lparr>users := delete_one (\<lambda>x. u_id x = p_id root) (users campus)\<rparr>) \<and>
   map u_id (users campus) = [1, 2, 3, 5, 6] \<and>
   map u_id (users (snd (superadmin_delete_user campus root (Other_spelling (p_id root)))))
     = [2, 3, 5, 6]"
  by code_simp

lemma find_user_id: "find (\<lambda>u. u_id u = uid) us = Some u \<Longrightarrow> u_id u = uid"
  by (induction us) (auto split: if_splits)

text \<open>
  What the two routes for \<open>/users/:userId\<close> do clean when a super-admin deletes a
  student: the first the batches' student sets and the profile, the second the course
  enrolments, the submissions, the attendance records and the profile.
\<close>

lemma admin_delete_student_cleanup:
  assumes super: "p_role p = Superadmin" and other: "userId \<noteq> Canonical (p_id p)"
    and cast: "cast_id userId = Some uid"
    and found: "find (\<lambda>u. u_id u = uid) (users st) = Some u"
    and student: "u_role u = Student"
  shows "fst (admin_delete_user st p userId) = Success \<and>
         list_all (\<lambda>b. uid \<notin> set (b_students b)) (batches (snd (admin_delete_user st p userId))) \<and>
         students (snd (admin_delete_user st p userId)) = delete_one (\<lambda>s. sp_user s = uid) (students st) \<and>
         courses (snd (admin_delete_user st p userId)) = courses st \<and>
         assignments (snd (admin_delete_user st p userId)) = assignments st \<and>
         attendances (snd (admin_delete_user st p userId)) = attendances st"
proof -
  have id: "u_id u = uid"
    using found by (rule find_user_id)
  have "admin_delete_user st p userId =
          (Success,
           st\<lparr>batches := map (\<lambda>b. b\<lparr>b_students := filter (\<lambda>x. x \<noteq> uid) (b_students b)\<rparr>) (batches st),
              students := delete_one (\<lambda>s. sp_user s = uid) (students st),
              users := delete_one (\<lambda>x. u_id x = uid) (users st)\<rparr>)"
    using super other student by (simp add: admin_delete_user_def cast found id Let_def)
  then show ?thesis
    by (simp add: list_all_iff)
qed

lemma superadmin_delete_student_cleanup:
  assumes super: "p_role p = Superadmin" and other: "userId \<noteq> Canonical (p_id p)"
    and cast: "cast_id userId = Some uid"
    and found: "find (\<lambda>u. u_id u = uid) (users st) = Some u"
    and student: "u_role u = Student"
  shows "fst (superadmin_delete_user st p userId) = Success \<and>
         list_all (\<lambda>c. uid \<notin> set (map en_student (c_students c)))
                  (courses (snd (superadmin_delete_user st p userId))) \<and>
         list_all (\<lambda>a. uid \<notin> set (map sub_student (submissions a)))
                  (assignments (snd (superadmin_delete_user st p userId))) \<and>
         list_all (\<lambda>x. at_student x \<noteq> uid) (attendances (snd (superadmin_delete_user st p userId))) \<and>
         students (snd (superadmin_delete_user st p userId)) = delete_one (\<lambda>s. sp_user s = uid) (students st) \<and>
         batches (snd (superadmin_delete_user st p userId)) = batches st"
proof -
  have id: "u_id u = uid"
    using found by (rule find_user_id)
  have "superadmin_delete_user st p userId =
          (Success,
           st\<lparr>courses := map (\<lambda>c. c\<lparr>c_students := filter (\<lambda>e. en_student e \<noteq> uid) (c_students c)\<rparr>)
                              (courses st),
              assignments := map (\<lambda>a. a\<lparr>submissions := filter (\<lambda>s. sub_student s \<noteq> uid) (submissions a)\<rparr>)
                                 (assignments st),
              attendances := filter (\<lambda>x. at_student x \<noteq> uid) (attendances st),
              students := delete_one (\<lambda>s. sp_user s = uid) (students st),
              users := delete_one (\<lambda>x. u_id x = uid) (users st)\<rparr>)"
    using super other student by (simp add: superadmin_delete_user_def cast found id Let_def)
  then show ?thesis
    by (auto simp: list_all_iff)
qed

text \<open>The student route deletes the user it finds, whatever the user's role.\<close>

lemma delete_student_any_role:
  assumes admin: "p_role p = Admin"
    and found: "find (\<lambda>u. u_id u = uid) (users st) = Some u"
  shows "fst (delete_student st p uid) = Success \<and>
         users (snd (delete_student st p uid)) = delete_one (\<lambda>x. u_id x = uid) (users st)"
  using admin by (simp add: delete_student_def found Let_def split: option.splits)

text \<open>
  C1 fails on each of the three deletion routes. Student 3 is deleted from the college:
  the admin route leaves the course enrolment, the submission and the attendance record;
  the super-admin route leaves the batch's student set; the student route leaves all of
  them and, as the others, answers with success.
\<close>

theorem student_deletion_leaves_references:
  "fst (admin_delete_user campus root (Canonical 3)) = Success \<and>
   courses (snd (admin_delete_user campus root (Canonical 3))) = courses campus \<and>
   assignments (snd (admin_delete_user campus root (Canonical 3))) = assignments campus \<and>
   attendances (snd (admin_delete_user campus root (Canonical 3))) = attendances campus \<and>
   dangling (snd (admin_delete_user campus root (Canonical 3))) 3 \<and>
   fst (superadmin_delete_user campus root (Canonical 3)) = Success \<and>
   batches (snd (superadmin_delete_user campus root (Canonical 3))) = batches campus \<and>
   dangling (snd (superadmin_delete_user campus root (Canonical 3))) 3 \<and>
   fst (delete_student campus ann 3) = Success \<and>
   batches (snd (delete_student campus ann 3)) = batches campus \<and>
   courses (snd (delete_student campus ann 3)) = courses campus \<and>
   assignments (snd (delete_student campus ann 3)) = assignments campus \<and>
   attendances (snd (delete_student campus ann 3)) = attendances campus \<and>
   dangling (snd (delete_student campus ann 3)) 3"
  by code_simp

text \<open>
  C2 fails on the student route. The admin 2 asks for the deletion of user 2, their own
  account: the request succeeds and the account is gone from the store.
\<close>

theorem admin_deletes_own_account:
  "p_id ann = 2 \<and> fst (delete_student campus ann 2) = Success \<and>
   map u_id (users campus) = [1, 2, 3, 5, 6] \<and>
   map u_id (users (snd (delete_student campus ann 2))) = [1, 3, 5, 6]"
  by code_simp

end
